theory Spec2Isabelle
  imports Complex_Main
begin

section \<open>Data model\<close>

text \<open>
  The rows of the relational store, as the services read and write them. Identifiers are
  the UUID strings of the schema. Monetary amounts, share counts and prices are JavaScript
  numbers (and \<open>Decimal\<close> values inside the pricing engine); they are modelled as exact
  reals, so binary rounding of the machine arithmetic is idealised, while the decimal
  rounding that the code asks for (\<open>toFixed(6)\<close>) is modelled exactly.
  Free-text columns (title, description) and the row timestamps \<open>created_at\<close> and
  \<open>updated_at\<close> are not modelled.
\<close>

type_synonym uuid = string
type_synonym timestamp = int

datatype side = Yes | No
datatype trade_type = Buy | Sell
datatype market_status = Draft | Active | Suspended | Resolved | Cancelled
datatype tx_type = Deposit | Withdraw | Trade | Settlement | Refund

text \<open>
  The exceptions of the services, one constructor per kind of the error catalogue:
  \<^item> \<open>NotFound\<close>: every \<open>NotFoundException\<close>;
  \<^item> \<open>InvalidAmount\<close>: deposit or withdraw with \<open>amount <= 0\<close>;
  \<^item> \<open>InsufficientFunds\<close>: the balance check of withdraw and deductForTrade;
  \<^item> \<open>InsufficientShares\<close>: executeSell without a position or with too few shares;
  \<^item> \<open>MarketClosed\<close>, \<open>OutOfWindow\<close>: the status and time checks of executeTrade;
  \<^item> \<open>InvalidTrade\<close>: the three request checks of executeBuy and executeSell;
  \<^item> \<open>InvalidTransition\<close>: the transition table of updateStatus;
  \<^item> \<open>NotResolvable\<close>: resolveMarket on a market neither active nor suspended;
  \<^item> \<open>NotResolved\<close>: settleMarket on a market without status resolved and an outcome;
  \<^item> \<open>NotEnoughMarketShares\<close>, \<open>InvalidSellAmount\<close>: the two plain errors thrown by
    calculateSellReturn;
  \<^item> \<open>Internal\<close>: the plain \<open>Error\<close> thrown when the store reports an error.
\<close>

datatype error =
    NotFound
  | InvalidAmount
  | InsufficientFunds
  | InsufficientShares
  | MarketClosed
  | OutOfWindow
  | InvalidTrade
  | InvalidTransition
  | NotResolvable
  | NotResolved
  | NotEnoughMarketShares
  | InvalidSellAmount
  | Internal

record wallet =
  w_id :: uuid
  w_user_id :: uuid
  balance :: real
  frozen_balance :: real

record wallet_transaction =
  tx_wallet_id :: uuid
  tx_kind :: tx_type
  tx_amount :: real
  balance_before :: real
  balance_after :: real
  reference_id :: "uuid option"

record market =
  m_id :: uuid
  m_status :: market_status
  m_outcome :: "side option"
  m_yes_shares :: real
  m_no_shares :: real
  m_liquidity :: real
  m_volume :: real
  m_start_time :: timestamp
  m_end_time :: timestamp

record position =
  p_user_id :: uuid
  p_market_id :: uuid
  yes_shares :: real
  no_shares :: real
  avg_yes_price :: real
  avg_no_price :: real

record trade =
  t_user_id :: uuid
  t_market_id :: uuid
  t_type :: trade_type
  t_side :: side
  t_shares :: real
  t_price :: real
  t_cost :: real
  t_fee :: real
  yes_shares_before :: real
  no_shares_before :: real
  yes_shares_after :: real
  no_shares_after :: real

text \<open>
  The store. Wallets are keyed by their owner (\<open>wallets.user_id\<close> is unique), markets by
  their id; wallet transactions, positions and trades are tables in insertion order.
\<close>

record db =
  wallets :: "uuid \<rightharpoonup> wallet"
  wallet_transactions :: "wallet_transaction list"
  markets :: "uuid \<rightharpoonup> market"
  positions :: "position list"
  trades :: "trade list"

text \<open>
  Every write to the store returns an \<open>error\<close> field that the services inspect. Which
  writes the store refuses is a parameter of each operation: one flag per table and kind
  of access whose error the code handles, fixed for the duration of one call. A trade
  writes each table at most once, so for a trade the flags name the step that fails.
  A read that reports an error is the read of a missing row, as in the services, except
  for the listing of a market's positions, which throws.
\<close>

record faults =
  wallet_update_fails :: bool
  wallet_tx_insert_fails :: bool
  market_update_fails :: bool
  position_list_fails :: bool
  position_write_fails :: bool
  trade_insert_fails :: bool

definition no_faults :: faults where
  "no_faults = \<lparr>wallet_update_fails = False, wallet_tx_insert_fails = False,
                 market_update_fails = False, position_list_fails = False,
                 position_write_fails = False, trade_insert_fails = False\<rparr>"

section \<open>Pricing engine (LMSR)\<close>

text \<open>
  \<open>AMMService\<close>. The engine computes with \<open>Decimal\<close> values and rounds what it returns
  with \<open>toFixed(6)\<close>; \<open>Decimal\<close>'s default rounding mode is half away from zero.
\<close>

record AMMState =
  yesShares :: real
  noShares :: real

record Prices =
  yesPrice :: real
  noPrice :: real

record TradeResult =
  sharesReceived :: real
  tr_cost :: real
  tr_avgPrice :: real
  tr_newYesShares :: real
  tr_newNoShares :: real
  tr_priceImpact :: real

record SellResult =
  amountReceived :: real
  sr_avgPrice :: real
  sr_newYesShares :: real
  sr_newNoShares :: real
  sr_priceImpact :: real

record SharesResult =
  sa_shares :: real
  sa_avgPrice :: real

definition FEE_RATE :: real where
  "FEE_RATE = 2 / 100"

definition DEFAULT_LIQUIDITY :: real where
  "DEFAULT_LIQUIDITY = 100"

definition toFixed6 :: "real \<Rightarrow> real" where
  "toFixed6 x =
     (if 0 \<le> x then of_int \<lfloor>x * 10 ^ 6 + 1 / 2\<rfloor> / 10 ^ 6
      else - (of_int \<lfloor>- x * 10 ^ 6 + 1 / 2\<rfloor> / 10 ^ 6))"

text \<open>
  \<open>liquidity || this.DEFAULT_LIQUIDITY\<close>: the optional parameter, with the default when
  it is absent or zero.
\<close>

definition liquidityOrDefault :: "real option \<Rightarrow> real" where
  "liquidityOrDefault liquidity =
     (case liquidity of
        None \<Rightarrow> DEFAULT_LIQUIDITY
      | Some l \<Rightarrow> if l = 0 then DEFAULT_LIQUIDITY else l)"

definition cost :: "real \<Rightarrow> real \<Rightarrow> real \<Rightarrow> real" where
  "cost qYes qNo b =
     (let expYes = exp (qYes / b);
          expNo = exp (qNo / b)
      in b * ln (expYes + expNo))"

definition getCurrentPrices :: "AMMState \<Rightarrow> real option \<Rightarrow> Prices" where
  "getCurrentPrices state liquidity =
     (let b = liquidityOrDefault liquidity;
          qYes = yesShares state;
          qNo = noShares state;
          expYes = exp (qYes / b);
          expNo = exp (qNo / b);
          total = expYes + expNo;
          yesP = expYes / total;
          noP = expNo / total
      in \<lparr>yesPrice = toFixed6 yesP, noPrice = toFixed6 noP\<rparr>)"

text \<open>
  \<open>calculateBuyCost\<close>. The quotients by \<open>deltaShares\<close> and by the old price are
  JavaScript's \<open>NaN\<close> or infinity when the divisor is zero, where HOL's division gives 0;
  the executor calls the function with a divisor \<open>deltaShares\<close> that is not zero, and no
  statement below reads \<open>tr_priceImpact\<close>.
\<close>

definition calculateBuyCost :: "AMMState \<Rightarrow> side \<Rightarrow> real \<Rightarrow> real option \<Rightarrow> TradeResult" where
  "calculateBuyCost state sd shares liquidity =
     (let b = liquidityOrDefault liquidity;
          qYes = yesShares state;
          qNo = noShares state;
          deltaShares = shares;
          currentCost = cost qYes qNo b;
          newQYes = (if sd = Yes then qYes + deltaShares else qYes);
          newQNo = (if sd = Yes then qNo else qNo + deltaShares);
          newCost = cost newQYes newQNo b;
          rawCost = newCost - currentCost;
          fee = rawCost * FEE_RATE;
          totalCost = rawCost + fee;
          avgPrice = totalCost / deltaShares;
          oldPrices = getCurrentPrices state liquidity;
          newState = \<lparr>yesShares = newQYes, noShares = newQNo\<rparr>;
          newPrices = getCurrentPrices newState liquidity;
          priceImpact =
            (if sd = Yes then (yesPrice newPrices - yesPrice oldPrices) / yesPrice oldPrices
             else (noPrice newPrices - noPrice oldPrices) / noPrice oldPrices)
      in \<lparr>sharesReceived = shares,
          tr_cost = toFixed6 totalCost,
          tr_avgPrice = toFixed6 avgPrice,
          tr_newYesShares = newQYes,
          tr_newNoShares = newQNo,
          tr_priceImpact = \<bar>priceImpact\<bar>\<rparr>)"

text \<open>
  \<open>calculateSellReturn\<close>. \<open>sellNewShares\<close> is the pair \<open>(newQYes, newQNo)\<close> after the
  subtraction and before the two statements that replace a negative quantity by 0.
\<close>

definition sellNewShares :: "AMMState \<Rightarrow> side \<Rightarrow> real \<Rightarrow> real \<times> real" where
  "sellNewShares state sd shares =
     (if sd = Yes then (yesShares state - shares, noShares state)
      else (yesShares state, noShares state - shares))"

definition calculateSellReturn :: "AMMState \<Rightarrow> side \<Rightarrow> real \<Rightarrow> real option \<Rightarrow> error + SellResult" where
  "calculateSellReturn state sd shares liquidity =
     (let b = liquidityOrDefault liquidity;
          qYes = yesShares state;
          qNo = noShares state;
          deltaShares = shares
      in if sd = Yes \<and> deltaShares > qYes then Inl NotEnoughMarketShares
         else if sd = No \<and> deltaShares > qNo then Inl NotEnoughMarketShares
         else
           (let currentCost = cost qYes qNo b;
                newQYes = (if fst (sellNewShares state sd shares) < 0 then 0
                           else fst (sellNewShares state sd shares));
                newQNo = (if snd (sellNewShares state sd shares) < 0 then 0
                          else snd (sellNewShares state sd shares));
                newCost = cost newQYes newQNo b;
                rawReturn = currentCost - newCost
            in if rawReturn \<le> 0 then Inl InvalidSellAmount
               else
                 (let fee = rawReturn * FEE_RATE;
                      amountReceived = rawReturn - fee;
                      avgPrice = amountReceived / deltaShares;
                      oldPrices = getCurrentPrices state liquidity;
                      newState = \<lparr>yesShares = newQYes, noShares = newQNo\<rparr>;
                      newPrices = getCurrentPrices newState liquidity;
                      priceImpact =
                        (if sd = Yes
                         then (yesPrice oldPrices - yesPrice newPrices) / yesPrice oldPrices
                         else (noPrice oldPrices - noPrice newPrices) / noPrice oldPrices)
                  in Inr \<lparr>amountReceived = toFixed6 amountReceived,
                          sr_avgPrice = toFixed6 avgPrice,
                          sr_newYesShares = newQYes,
                          sr_newNoShares = newQNo,
                          sr_priceImpact = \<bar>priceImpact\<bar>\<rparr>)))"

text \<open>
  \<open>calculateSharesForAmount\<close>. \<open>bisection\<close> is the \<open>for\<close> loop with \<open>n\<close> iterations
  left, and its last equation the code after the loop. The \<open>catch\<close> branch of the loop
  is not modelled: \<open>calculateBuyCost\<close> has no \<open>throw\<close>.
\<close>

fun bisection :: "AMMState \<Rightarrow> side \<Rightarrow> real \<Rightarrow> real option \<Rightarrow> nat \<Rightarrow> real \<Rightarrow> real \<Rightarrow> SharesResult" where
  "bisection state sd amount liquidity 0 low high =
     (let finalShares = (low + high) / 2
      in \<lparr>sa_shares = toFixed6 finalShares, sa_avgPrice = toFixed6 (amount / finalShares)\<rparr>)"
| "bisection state sd amount liquidity (Suc n) low high =
     (let targetCost = amount / (1 + FEE_RATE);
          tolerance = 1 / 10000;
          mid = (low + high) / 2;
          result = calculateBuyCost state sd mid liquidity;
          costWithoutFee = tr_cost result / (1 + FEE_RATE)
      in if \<bar>costWithoutFee - targetCost\<bar> < tolerance
         then \<lparr>sa_shares = toFixed6 mid, sa_avgPrice = toFixed6 (amount / mid)\<rparr>
         else if costWithoutFee < targetCost
         then bisection state sd amount liquidity n mid high
         else bisection state sd amount liquidity n low mid)"

definition calculateSharesForAmount :: "AMMState \<Rightarrow> side \<Rightarrow> real \<Rightarrow> real option \<Rightarrow> SharesResult" where
  "calculateSharesForAmount state sd amount liquidity =
     bisection state sd amount liquidity 100 0 (amount * 10)"

definition getLiquidityForMarket :: "real \<Rightarrow> real" where
  "getLiquidityForMarket marketLiquidity = marketLiquidity"

section \<open>Market store\<close>

text \<open>
  \<open>MarketsService.findById\<close>: the row whose \<open>id\<close> column is the argument, or null when
  the query reports an error (no such row).
\<close>

definition findById :: "db \<Rightarrow> uuid \<Rightarrow> market option" where
  "findById s mid =
     (case markets s mid of
        None \<Rightarrow> None
      | Some market \<Rightarrow> if m_id market = mid then Some market else None)"

text \<open>The table \<open>validTransitions\<close> of \<open>MarketsService.updateStatus\<close>.\<close>

fun validTransitions :: "market_status \<Rightarrow> market_status list" where
  "validTransitions Draft = [Active, Cancelled]"
| "validTransitions Active = [Suspended, Resolved, Cancelled]"
| "validTransitions Suspended = [Active, Resolved, Cancelled]"
| "validTransitions Resolved = []"
| "validTransitions Cancelled = []"

definition updateStatus :: "faults \<Rightarrow> db \<Rightarrow> uuid \<Rightarrow> market_status \<Rightarrow> (error + market) \<times> db" where
  "updateStatus f s mid st =
     (case findById s mid of
        None \<Rightarrow> (Inl NotFound, s)
      | Some market \<Rightarrow>
          if st \<notin> set (validTransitions (m_status market))
          then (Inl InvalidTransition, s)
          else if market_update_fails f then (Inl Internal, s)
          else (let data = market\<lparr>m_status := st\<rparr>
                in (Inr data, s\<lparr>markets := (markets s)(mid \<mapsto> data)\<rparr>)))"


text \<open>\<open>MarketsService.updateShares\<close>.\<close>

definition updateShares :: "faults \<Rightarrow> db \<Rightarrow> uuid \<Rightarrow> real \<Rightarrow> real \<Rightarrow> real \<Rightarrow> (error + market) \<times> db" where
  "updateShares f s mid newYes newNo volumeIncrease =
     (case findById s mid of
        None \<Rightarrow> (Inl NotFound, s)
      | Some market \<Rightarrow>
          if market_update_fails f then (Inl Internal, s)
          else (let data = market\<lparr>m_yes_shares := newYes, m_no_shares := newNo,
                                  m_volume := m_volume market + volumeIncrease\<rparr>
                in (Inr data, s\<lparr>markets := (markets s)(mid \<mapsto> data)\<rparr>)))"

section \<open>Wallet ledger\<close>

text \<open>
  \<open>WalletsService\<close>. \<open>findByUserId\<close> is the wallet whose \<open>user_id\<close> column is the
  argument, or null. \<open>recordTransaction\<close> inserts the ledger row and, when the store
  reports an error, only logs it: the caller goes on.
\<close>

definition findByUserId :: "db \<Rightarrow> uuid \<Rightarrow> wallet option" where
  "findByUserId s userId =
     (case wallets s userId of
        None \<Rightarrow> None
      | Some w \<Rightarrow> if w_user_id w = userId then Some w else None)"

definition recordTransaction :: "faults \<Rightarrow> db \<Rightarrow> wallet_transaction \<Rightarrow> db" where
  "recordTransaction f s row =
     (if wallet_tx_insert_fails f then s
      else s\<lparr>wallet_transactions := wallet_transactions s @ [row]\<rparr>)"

definition deposit :: "faults \<Rightarrow> db \<Rightarrow> uuid \<Rightarrow> real \<Rightarrow> (error + wallet) \<times> db" where
  "deposit f s userId amount =
     (if amount \<le> 0 then (Inl InvalidAmount, s)
      else case findByUserId s userId of
        None \<Rightarrow> (Inl NotFound, s)
      | Some w \<Rightarrow>
          (let currentBalance = balance w;
               newBalance = currentBalance + amount
           in if wallet_update_fails f then (Inl Internal, s)
              else (let data = w\<lparr>balance := newBalance\<rparr>;
                        s1 = s\<lparr>wallets := (wallets s)(userId \<mapsto> data)\<rparr>
                    in (Inr data,
                        recordTransaction f s1
                          \<lparr>tx_wallet_id = w_id w, tx_kind = Deposit, tx_amount = amount,
                           balance_before = currentBalance, balance_after = newBalance,
                           reference_id = None\<rparr>))))"

definition withdraw :: "faults \<Rightarrow> db \<Rightarrow> uuid \<Rightarrow> real \<Rightarrow> (error + wallet) \<times> db" where
  "withdraw f s userId amount =
     (if amount \<le> 0 then (Inl InvalidAmount, s)
      else case findByUserId s userId of
        None \<Rightarrow> (Inl NotFound, s)
      | Some w \<Rightarrow>
          (let currentBalance = balance w
           in if currentBalance < amount then (Inl InsufficientFunds, s)
              else (let newBalance = currentBalance - amount
                    in if wallet_update_fails f then (Inl Internal, s)
                       else (let data = w\<lparr>balance := newBalance\<rparr>;
                                 s1 = s\<lparr>wallets := (wallets s)(userId \<mapsto> data)\<rparr>
                             in (Inr data,
                                 recordTransaction f s1
                                   \<lparr>tx_wallet_id = w_id w, tx_kind = Withdraw,
                                    tx_amount = - amount,
                                    balance_before = currentBalance, balance_after = newBalance,
                                    reference_id = None\<rparr>)))))"

definition deductForTrade :: "faults \<Rightarrow> db \<Rightarrow> uuid \<Rightarrow> real \<Rightarrow> uuid \<Rightarrow> (error + wallet) \<times> db" where
  "deductForTrade f s userId amount marketId =
     (case findByUserId s userId of
        None \<Rightarrow> (Inl NotFound, s)
      | Some w \<Rightarrow>
          (let currentBalance = balance w
           in if currentBalance < amount then (Inl InsufficientFunds, s)
              else (let newBalance = currentBalance - amount
                    in if wallet_update_fails f then (Inl Internal, s)
                       else (let data = w\<lparr>balance := newBalance\<rparr>;
                                 s1 = s\<lparr>wallets := (wallets s)(userId \<mapsto> data)\<rparr>
                             in (Inr data,
                                 recordTransaction f s1
                                   \<lparr>tx_wallet_id = w_id w, tx_kind = Trade,
                                    tx_amount = - amount,
                                    balance_before = currentBalance, balance_after = newBalance,
                                    reference_id = Some marketId\<rparr>)))))"

definition addFromTrade :: "faults \<Rightarrow> db \<Rightarrow> uuid \<Rightarrow> real \<Rightarrow> uuid \<Rightarrow> (error + wallet) \<times> db" where
  "addFromTrade f s userId amount marketId =
     (case findByUserId s userId of
        None \<Rightarrow> (Inl NotFound, s)
      | Some w \<Rightarrow>
          (let currentBalance = balance w;
               newBalance = currentBalance + amount
           in if wallet_update_fails f then (Inl Internal, s)
              else (let data = w\<lparr>balance := newBalance\<rparr>;
                        s1 = s\<lparr>wallets := (wallets s)(userId \<mapsto> data)\<rparr>
                    in (Inr data,
                        recordTransaction f s1
                          \<lparr>tx_wallet_id = w_id w, tx_kind = Trade, tx_amount = amount,
                           balance_before = currentBalance, balance_after = newBalance,
                           reference_id = Some marketId\<rparr>))))"

definition settlePosition :: "faults \<Rightarrow> db \<Rightarrow> uuid \<Rightarrow> real \<Rightarrow> uuid \<Rightarrow> (error + wallet) \<times> db" where
  "settlePosition f s userId amount marketId =
     (case findByUserId s userId of
        None \<Rightarrow> (Inl NotFound, s)
      | Some w \<Rightarrow>
          (let currentBalance = balance w;
               newBalance = currentBalance + amount
           in if wallet_update_fails f then (Inl Internal, s)
              else (let data = w\<lparr>balance := newBalance\<rparr>;
                        s1 = s\<lparr>wallets := (wallets s)(userId \<mapsto> data)\<rparr>
                    in (Inr data,
                        recordTransaction f s1
                          \<lparr>tx_wallet_id = w_id w, tx_kind = Settlement, tx_amount = amount,
                           balance_before = currentBalance, balance_after = newBalance,
                           reference_id = Some marketId\<rparr>))))"

text \<open>
  The five ledger operations under one name, to state what they share: the operation
  with its arguments, the signed amount it books and the kind of row it writes.
\<close>

datatype wallet_op =
    OpDeposit real
  | OpWithdraw real
  | OpDeductForTrade real uuid
  | OpAddFromTrade real uuid
  | OpSettlePosition real uuid

fun runWalletOp :: "faults \<Rightarrow> db \<Rightarrow> uuid \<Rightarrow> wallet_op \<Rightarrow> (error + wallet) \<times> db" where
  "runWalletOp f s userId (OpDeposit amount) = deposit f s userId amount"
| "runWalletOp f s userId (OpWithdraw amount) = withdraw f s userId amount"
| "runWalletOp f s userId (OpDeductForTrade amount marketId) =
     deductForTrade f s userId amount marketId"
| "runWalletOp f s userId (OpAddFromTrade amount marketId) =
     addFromTrade f s userId amount marketId"
| "runWalletOp f s userId (OpSettlePosition amount marketId) =
     settlePosition f s userId amount marketId"

fun signedAmount :: "wallet_op \<Rightarrow> real" where
  "signedAmount (OpDeposit amount) = amount"
| "signedAmount (OpWithdraw amount) = - amount"
| "signedAmount (OpDeductForTrade amount marketId) = - amount"
| "signedAmount (OpAddFromTrade amount marketId) = amount"
| "signedAmount (OpSettlePosition amount marketId) = amount"

fun isDebit :: "wallet_op \<Rightarrow> bool" where
  "isDebit (OpWithdraw amount) = True"
| "isDebit (OpDeductForTrade amount marketId) = True"
| "isDebit _ = False"

fun opKind :: "wallet_op \<Rightarrow> tx_type" where
  "opKind (OpDeposit amount) = Deposit"
| "opKind (OpWithdraw amount) = Withdraw"
| "opKind (OpDeductForTrade amount marketId) = Trade"
| "opKind (OpAddFromTrade amount marketId) = Trade"
| "opKind (OpSettlePosition amount marketId) = Settlement"

section \<open>Position store\<close>

text \<open>
  \<open>PositionsService\<close>. \<open>findByUserAndMarket\<close> ends in \<open>.single()\<close>: the row when exactly
  one matches, null otherwise. \<open>findByMarket\<close> lists the rows of a market (in table
  order here; the source orders them by \<open>updated_at\<close>) and throws when the store reports
  an error.
\<close>

definition findByUserAndMarket :: "db \<Rightarrow> uuid \<Rightarrow> uuid \<Rightarrow> position option" where
  "findByUserAndMarket s userId marketId =
     (case filter (\<lambda>p. p_user_id p = userId \<and> p_market_id p = marketId) (positions s) of
        [p] \<Rightarrow> Some p
      | _ \<Rightarrow> None)"

definition findByMarket :: "faults \<Rightarrow> db \<Rightarrow> uuid \<Rightarrow> error + position list" where
  "findByMarket f s marketId =
     (if position_list_fails f then Inl Internal
      else Inr (filter (\<lambda>p. p_market_id p = marketId) (positions s)))"

definition createOrUpdate ::
    "faults \<Rightarrow> db \<Rightarrow> uuid \<Rightarrow> uuid \<Rightarrow> side \<Rightarrow> real \<Rightarrow> real \<Rightarrow> bool \<Rightarrow> (error + position) \<times> db" where
  "createOrUpdate f s userId marketId sd sharesDelta avgPrice isBuy =
     (case findByUserAndMarket s userId marketId of
        None \<Rightarrow>
          (let insertData =
                 (if sd = Yes
                  then \<lparr>p_user_id = userId, p_market_id = marketId,
                        yes_shares = sharesDelta, no_shares = 0,
                        avg_yes_price = avgPrice, avg_no_price = 0\<rparr>
                  else \<lparr>p_user_id = userId, p_market_id = marketId,
                        yes_shares = 0, no_shares = sharesDelta,
                        avg_yes_price = 0, avg_no_price = avgPrice\<rparr>)
           in if position_write_fails f then (Inl Internal, s)
              else (Inr insertData, s\<lparr>positions := positions s @ [insertData]\<rparr>))
      | Some position \<Rightarrow>
          (let currentShares = (if sd = Yes then yes_shares position else no_shares position);
               currentAvgPrice =
                 (if sd = Yes then avg_yes_price position else avg_no_price position);
               newShares =
                 (if isBuy then currentShares + sharesDelta else currentShares - sharesDelta);
               newAvgPrice =
                 (if isBuy
                  then (if newShares > 0
                        then (currentShares * currentAvgPrice + sharesDelta * avgPrice) / newShares
                        else 0)
                  else (if newShares > 0 then currentAvgPrice else 0));
               data =
                 (if sd = Yes
                  then position\<lparr>yes_shares := max 0 newShares, avg_yes_price := newAvgPrice\<rparr>
                  else position\<lparr>no_shares := max 0 newShares, avg_no_price := newAvgPrice\<rparr>)
           in if position_write_fails f then (Inl Internal, s)
              else (Inr data,
                    s\<lparr>positions :=
                        map (\<lambda>p. if p_user_id p = userId \<and> p_market_id p = marketId
                                 then data else p) (positions s)\<rparr>)))"

section \<open>Trade executor\<close>

text \<open>
  \<open>TradesService\<close>. The request body: \<open>amount\<close> and \<open>shares\<close> are optional; the code
  tests them for truthiness, so an absent field and the number 0 take the same branch.
\<close>

record ExecuteTradeDto =
  d_marketId :: uuid
  d_type :: trade_type
  d_side :: side
  d_amount :: "real option"
  d_shares :: "real option"

definition truthy :: "real option \<Rightarrow> real option" where
  "truthy v = (case v of None \<Rightarrow> None | Some x \<Rightarrow> if x = 0 then None else Some x)"

definition recordTrade :: "faults \<Rightarrow> db \<Rightarrow> trade \<Rightarrow> (error + trade) \<times> db" where
  "recordTrade f s data =
     (if trade_insert_fails f then (Inl Internal, s)
      else (Inr data, s\<lparr>trades := trades s @ [data]\<rparr>))"

text \<open>
  The first part of \<open>executeBuy\<close>, up to the check \<open>shares <= 0\<close>: the triple
  \<open>(shares, cost, avgPrice)\<close> of the request.
\<close>

definition buyQuote :: "AMMState \<Rightarrow> ExecuteTradeDto \<Rightarrow> real \<Rightarrow> error + (real \<times> real \<times> real)" where
  "buyQuote state dto liquidityParam =
     (case truthy (d_amount dto) of
        Some amount \<Rightarrow>
          (let result = calculateSharesForAmount state (d_side dto) amount (Some liquidityParam)
           in Inr (sa_shares result, amount, sa_avgPrice result))
      | None \<Rightarrow>
          (case truthy (d_shares dto) of
             Some shares \<Rightarrow>
               (let result = calculateBuyCost state (d_side dto) shares (Some liquidityParam)
                in Inr (shares, tr_cost result, tr_avgPrice result))
           | None \<Rightarrow> Inl InvalidTrade))"

text \<open>
  \<open>executeBuy\<close> and \<open>executeSell\<close> return the inserted trade row; the other fields of
  the returned object repeat columns of that row.
\<close>

definition executeBuy ::
    "faults \<Rightarrow> db \<Rightarrow> uuid \<Rightarrow> market \<Rightarrow> AMMState \<Rightarrow> ExecuteTradeDto \<Rightarrow> (error + trade) \<times> db" where
  "executeBuy f s userId market state dto =
     (let liquidityParam = getLiquidityForMarket (m_liquidity market)
      in case buyQuote state dto liquidityParam of
        Inl e \<Rightarrow> (Inl e, s)
      | Inr (shares, paid, avgPrice) \<Rightarrow>
          if shares \<le> 0 then (Inl InvalidTrade, s)
          else
            (case deductForTrade f s userId paid (m_id market) of
               (Inl e, s1) \<Rightarrow> (Inl e, s1)
             | (Inr w, s1) \<Rightarrow>
                 (let buyResult =
                        calculateBuyCost state (d_side dto) shares (Some liquidityParam)
                  in case updateShares f s1 (m_id market) (tr_newYesShares buyResult)
                            (tr_newNoShares buyResult) paid of
                       (Inl e, s2) \<Rightarrow> (Inl e, s2)
                     | (Inr m, s2) \<Rightarrow>
                         (case createOrUpdate f s2 userId (m_id market) (d_side dto)
                                 shares avgPrice True of
                            (Inl e, s3) \<Rightarrow> (Inl e, s3)
                          | (Inr p, s3) \<Rightarrow>
                              (let fee = (paid * FEE_RATE) / (1 + FEE_RATE)
                               in recordTrade f s3
                                    \<lparr>t_user_id = userId, t_market_id = m_id market,
                                     t_type = Buy, t_side = d_side dto, t_shares = shares,
                                     t_price = avgPrice, t_cost = paid, t_fee = fee,
                                     yes_shares_before = yesShares state,
                                     no_shares_before = noShares state,
                                     yes_shares_after = tr_newYesShares buyResult,
                                     no_shares_after = tr_newNoShares buyResult\<rparr>)))))"

definition executeSell ::
    "faults \<Rightarrow> db \<Rightarrow> uuid \<Rightarrow> market \<Rightarrow> AMMState \<Rightarrow> ExecuteTradeDto \<Rightarrow> (error + trade) \<times> db" where
  "executeSell f s userId market state dto =
     (case truthy (d_shares dto) of
        None \<Rightarrow> (Inl InvalidTrade, s)
      | Some shares \<Rightarrow>
          if shares \<le> 0 then (Inl InvalidTrade, s)
          else
            (case findByUserAndMarket s userId (m_id market) of
               None \<Rightarrow> (Inl InsufficientShares, s)
             | Some position \<Rightarrow>
                 (let currentShares =
                        (if d_side dto = Yes then yes_shares position else no_shares position)
                  in if currentShares < shares then (Inl InsufficientShares, s)
                     else
                       (let liquidityParam = getLiquidityForMarket (m_liquidity market)
                        in case calculateSellReturn state (d_side dto) shares
                                  (Some liquidityParam) of
                             Inl e \<Rightarrow> (Inl e, s)
                           | Inr sellResult \<Rightarrow>
                               (case addFromTrade f s userId (amountReceived sellResult)
                                       (m_id market) of
                                  (Inl e, s1) \<Rightarrow> (Inl e, s1)
                                | (Inr w, s1) \<Rightarrow>
                                    (case updateShares f s1 (m_id market)
                                            (sr_newYesShares sellResult)
                                            (sr_newNoShares sellResult)
                                            (amountReceived sellResult) of
                                       (Inl e, s2) \<Rightarrow> (Inl e, s2)
                                     | (Inr m, s2) \<Rightarrow>
                                         (case createOrUpdate f s2 userId (m_id market)
                                                 (d_side dto) shares (sr_avgPrice sellResult)
                                                 False of
                                            (Inl e, s3) \<Rightarrow> (Inl e, s3)
                                          | (Inr p, s3) \<Rightarrow>
                                              (let grossAmount =
                                                     amountReceived sellResult / (1 - FEE_RATE);
                                                   fee = grossAmount - amountReceived sellResult
                                               in recordTrade f s3
                                                    \<lparr>t_user_id = userId,
                                                     t_market_id = m_id market,
                                                     t_type = Sell, t_side = d_side dto,
                                                     t_shares = shares,
                                                     t_price = sr_avgPrice sellResult,
                                                     t_cost = amountReceived sellResult,
                                                     t_fee = fee,
                                                     yes_shares_before = yesShares state,
                                                     no_shares_before = noShares state,
                                                     yes_shares_after =
                                                       sr_newYesShares sellResult,
                                                     no_shares_after =
                                                       sr_newNoShares sellResult\<rparr>))))))))"

text \<open>\<open>executeTrade\<close>; \<open>now\<close> is the clock reading \<open>new Date()\<close>.\<close>

definition executeTrade ::
    "faults \<Rightarrow> db \<Rightarrow> timestamp \<Rightarrow> uuid \<Rightarrow> ExecuteTradeDto \<Rightarrow> (error + trade) \<times> db" where
  "executeTrade f s now userId dto =
     (case findById s (d_marketId dto) of
        None \<Rightarrow> (Inl NotFound, s)
      | Some market \<Rightarrow>
          if m_status market \<noteq> Active then (Inl MarketClosed, s)
          else if now < m_start_time market \<or> now > m_end_time market
          then (Inl OutOfWindow, s)
          else
            (let state = \<lparr>yesShares = m_yes_shares market, noShares = m_no_shares market\<rparr>
             in if d_type dto = Buy then executeBuy f s userId market state dto
                else executeSell f s userId market state dto))"

section \<open>Settlement\<close>

text \<open>
  \<open>TradesService.settleMarket\<close>. \<open>settleLoop\<close> is its \<open>for\<close> loop over the positions of
  the market; \<open>winningShares\<close> is the loop's variable of that name.
\<close>

definition winningShares :: "side \<Rightarrow> position \<Rightarrow> real" where
  "winningShares outcome position =
     (if outcome = Yes then yes_shares position else no_shares position)"

fun settleLoop :: "faults \<Rightarrow> db \<Rightarrow> side \<Rightarrow> uuid \<Rightarrow> position list \<Rightarrow> (error + unit) \<times> db" where
  "settleLoop f s outcome marketId [] = (Inr (), s)"
| "settleLoop f s outcome marketId (position # rest) =
     (if winningShares outcome position > 0
      then (case settlePosition f s (p_user_id position) (winningShares outcome position)
                   marketId of
              (Inl e, s1) \<Rightarrow> (Inl e, s1)
            | (Inr w, s1) \<Rightarrow> settleLoop f s1 outcome marketId rest)
      else settleLoop f s outcome marketId rest)"

definition settleMarket :: "faults \<Rightarrow> db \<Rightarrow> uuid \<Rightarrow> (error + nat) \<times> db" where
  "settleMarket f s marketId =
     (case findById s marketId of
        None \<Rightarrow> (Inl NotFound, s)
      | Some market \<Rightarrow>
          (case m_outcome market of
             None \<Rightarrow> (Inl NotResolved, s)
           | Some outcome \<Rightarrow>
               if m_status market = Resolved
               then (case findByMarket f s marketId of
                       Inl e \<Rightarrow> (Inl e, s)
                     | Inr ps \<Rightarrow>
                         (case settleLoop f s outcome marketId ps of
                            (Inl e, s1) \<Rightarrow> (Inl e, s1)
                          | (Inr u, s1) \<Rightarrow> (Inr (length ps), s1)))
               else (Inl NotResolved, s)))"


section \<open>The specification's vocabulary\<close>

text \<open>The eight status changes that the lifecycle of the specification allows.\<close>

definition allowed_moves :: "(market_status \<times> market_status) set" where
  "allowed_moves = {(Draft, Active), (Draft, Cancelled),
     (Active, Suspended), (Active, Resolved), (Active, Cancelled),
     (Suspended, Active), (Suspended, Resolved), (Suspended, Cancelled)}"

text \<open>
  The price of the YES side before \<open>toFixed(6)\<close>: the quotient \<open>expYes / sum\<close> of
  \<open>getCurrentPrices\<close>.
\<close>

definition rawYesPrice :: "AMMState \<Rightarrow> real option \<Rightarrow> real" where
  "rawYesPrice state liquidity =
     (let b = liquidityOrDefault liquidity
      in exp (yesShares state / b) / (exp (yesShares state / b) + exp (noShares state / b)))"

text \<open>
  The cost difference \<open>rawCost\<close> of \<open>calculateBuyCost\<close>, before the fee is added.
\<close>

definition rawBuyCost :: "AMMState \<Rightarrow> side \<Rightarrow> real \<Rightarrow> real \<Rightarrow> real" where
  "rawBuyCost state sd delta b =
     (if sd = Yes then cost (yesShares state + delta) (noShares state) b
      else cost (yesShares state) (noShares state + delta) b)
     - cost (yesShares state) (noShares state) b"

text \<open>
  The inversion of a buy by amount, in the words of the specification: bisection over
  the bracket from 0 to ten times the amount; \<open>specBracket k\<close> is the bracket after
  \<open>k\<close> halvings, \<open>specMidpoint k\<close> its midpoint, \<open>specConverged k\<close> holds when the
  fee-free cost of that midpoint is within 0.0001 of \<open>amount / (1 + fee_rate)\<close>;
  \<open>specStop k n\<close> is the first converged index from \<open>k\<close> on, and \<open>k + n\<close> when none of the
  \<open>n\<close> indices from \<open>k\<close> on converged. The quote is the midpoint at index
  \<open>specStop 0 100\<close>, rounded, with the average price \<open>amount / midpoint\<close>.
\<close>

definition feeFreeCost :: "AMMState \<Rightarrow> side \<Rightarrow> real option \<Rightarrow> real \<Rightarrow> real" where
  "feeFreeCost state sd liquidity delta =
     tr_cost (calculateBuyCost state sd delta liquidity) / (1 + FEE_RATE)"









text \<open>
  The ledger row that a wallet operation books on a wallet: the reference it stores and
  the whole row.
\<close>

fun opReference :: "wallet_op \<Rightarrow> uuid option" where
  "opReference (OpDeposit amount) = None"
| "opReference (OpWithdraw amount) = None"
| "opReference (OpDeductForTrade amount marketId) = Some marketId"
| "opReference (OpAddFromTrade amount marketId) = Some marketId"
| "opReference (OpSettlePosition amount marketId) = Some marketId"

definition ledgerRow :: "wallet \<Rightarrow> wallet_op \<Rightarrow> wallet_transaction" where
  "ledgerRow w op =
     \<lparr>tx_wallet_id = w_id w, tx_kind = opKind op, tx_amount = signedAmount op,
      balance_before = balance w, balance_after = balance w + signedAmount op,
      reference_id = opReference op\<rparr>"

text \<open>
  Settlement of a market with a given outcome: the positions of the market, those among
  them with winning shares (the credited ones), the sum a user is paid over them, a
  wallet with an amount added, and the kind, amount and reference of a ledger row.
\<close>

definition creditedPositions :: "side \<Rightarrow> position list \<Rightarrow> position list" where
  "creditedPositions outcome ps = filter (\<lambda>p. 0 < winningShares outcome p) ps"

definition payout :: "side \<Rightarrow> uuid \<Rightarrow> position list \<Rightarrow> real" where
  "payout outcome userId ps =
     sum_list (map (winningShares outcome)
       (filter (\<lambda>p. p_user_id p = userId) (creditedPositions outcome ps)))"

definition marketPositions :: "db \<Rightarrow> uuid \<Rightarrow> position list" where
  "marketPositions s marketId = filter (\<lambda>p. p_market_id p = marketId) (positions s)"

definition credit :: "real \<Rightarrow> wallet \<Rightarrow> wallet" where
  "credit amount w = w\<lparr>balance := balance w + amount\<rparr>"

definition ledgerEntry :: "wallet_transaction \<Rightarrow> tx_type \<times> real \<times> uuid option" where
  "ledgerEntry row = (tx_kind row, tx_amount row, reference_id row)"

definition settlementEntry :: "side \<Rightarrow> uuid \<Rightarrow> position \<Rightarrow> tx_type \<times> real \<times> uuid option" where
  "settlementEntry outcome marketId p = (Settlement, winningShares outcome p, Some marketId)"

text \<open>
  The store after a trade that aborts behind its wallet step, from the store \<open>s\<close> before
  the trade and the store \<open>s4\<close> after the same trade when every write succeeds: each table
  written before the failing step is as in \<open>s4\<close>, each other table as in \<open>s\<close>.
\<close>

definition abortedStore :: "faults \<Rightarrow> db \<Rightarrow> db \<Rightarrow> db" where
  "abortedStore f s s4 =
     \<lparr>wallets = wallets s4,
      wallet_transactions =
        (if wallet_tx_insert_fails f then wallet_transactions s else wallet_transactions s4),
      markets = (if market_update_fails f then markets s else markets s4),
      positions =
        (if market_update_fails f \<or> position_write_fails f then positions s else positions s4),
      trades = trades s\<rparr>"

section \<open>Example stores\<close>

text \<open>
  The first scenario of the specification: a fresh active market with liquidity 1000 and
  a user whose wallet holds 100.
\<close>

definition market1 :: market where
  "market1 = \<lparr>m_id = ''m1'', m_status = Active, m_outcome = None,
               m_yes_shares = 0, m_no_shares = 0, m_liquidity = 1000, m_volume = 0,
               m_start_time = 0, m_end_time = 100\<rparr>"

definition wallet1 :: wallet where
  "wallet1 = \<lparr>w_id = ''w1'', w_user_id = ''u1'', balance = 100, frozen_balance = 0\<rparr>"

definition store1 :: db where
  "store1 = \<lparr>wallets = [''u1'' \<mapsto> wallet1], wallet_transactions = [],
              markets = [''m1'' \<mapsto> market1], positions = [], trades = []\<rparr>"

text \<open>
  The fourth scenario: a market resolved YES, user A holding 50 YES shares, user B
  holding 50 NO shares, both with an empty wallet.
\<close>

definition market2 :: market where
  "market2 = \<lparr>m_id = ''m2'', m_status = Resolved, m_outcome = Some Yes,
               m_yes_shares = 50, m_no_shares = 50, m_liquidity = 1000, m_volume = 60,
               m_start_time = 0, m_end_time = 100\<rparr>"

definition walletA :: wallet where
  "walletA = \<lparr>w_id = ''wA'', w_user_id = ''uA'', balance = 0, frozen_balance = 0\<rparr>"

definition walletB :: wallet where
  "walletB = \<lparr>w_id = ''wB'', w_user_id = ''uB'', balance = 0, frozen_balance = 0\<rparr>"

definition positionA :: position where
  "positionA = \<lparr>p_user_id = ''uA'', p_market_id = ''m2'', yes_shares = 50, no_shares = 0,
                 avg_yes_price = 4 / 10, avg_no_price = 0\<rparr>"

definition positionB :: position where
  "positionB = \<lparr>p_user_id = ''uB'', p_market_id = ''m2'', yes_shares = 0, no_shares = 50,
                 avg_yes_price = 0, avg_no_price = 6 / 10\<rparr>"

definition store2 :: db where
  "store2 = \<lparr>wallets = [''uA'' \<mapsto> walletA, ''uB'' \<mapsto> walletB], wallet_transactions = [],
              markets = [''m2'' \<mapsto> market2], positions = [positionA, positionB],
              trades = []\<rparr>"

text \<open>
  Two requests on the fresh market: a buy of YES for the amount 10, and the same request
  with 5 shares supplied as well.
\<close>

definition buyByAmount10 :: ExecuteTradeDto where
  "buyByAmount10 = \<lparr>d_marketId = ''m1'', d_type = Buy, d_side = Yes,
                     d_amount = Some 10, d_shares = None\<rparr>"

definition buyBoth :: ExecuteTradeDto where
  "buyBoth = \<lparr>d_marketId = ''m1'', d_type = Buy, d_side = Yes,
               d_amount = Some 10, d_shares = Some 5\<rparr>"

section \<open>Rounding and the cost function\<close>

lemma toFixed6_nonneg: "0 \<le> x \<Longrightarrow> 0 \<le> toFixed6 x"
  by (simp add: toFixed6_def)

lemma toFixed6_nonneg_eq: "0 \<le> x \<Longrightarrow> toFixed6 x = of_int \<lfloor>x * 10 ^ 6 + 1 / 2\<rfloor> / 10 ^ 6"
  by (simp add: toFixed6_def)

lemma toFixed6_neg_le: "x < 0 \<Longrightarrow> toFixed6 x \<le> 0"
proof -
  assume "x < 0"
  then have "0 \<le> \<lfloor>- x * 10 ^ 6 + 1 / 2\<rfloor>" by simp
  then have "0 \<le> (of_int \<lfloor>- x * 10 ^ 6 + 1 / 2\<rfloor> :: real) / 10 ^ 6" by simp
  with \<open>x < 0\<close> show ?thesis by (simp add: toFixed6_def)
qed

lemma toFixed6_mono:
  assumes "x \<le> y"
  shows "toFixed6 x \<le> toFixed6 y"
proof (cases "0 \<le> x")
  case True
  with assms have "0 \<le> y" by simp
  have "\<lfloor>x * 10 ^ 6 + 1 / 2\<rfloor> \<le> \<lfloor>y * 10 ^ 6 + 1 / 2\<rfloor>"
    using assms by (intro floor_mono) simp
  then have "(of_int \<lfloor>x * 10 ^ 6 + 1 / 2\<rfloor> :: real) \<le> of_int \<lfloor>y * 10 ^ 6 + 1 / 2\<rfloor>"
    by simp
  then show ?thesis
    using True \<open>0 \<le> y\<close> by (simp add: toFixed6_def divide_right_mono)
next
  case False
  show ?thesis
  proof (cases "0 \<le> y")
    case True
    have "toFixed6 x \<le> 0" using False by (simp add: toFixed6_neg_le)
    also have "0 \<le> toFixed6 y" using True by (rule toFixed6_nonneg)
    finally show ?thesis .
  next
    case yneg: False
    have "\<lfloor>- y * 10 ^ 6 + 1 / 2\<rfloor> \<le> \<lfloor>- x * 10 ^ 6 + 1 / 2\<rfloor>"
      using assms by (intro floor_mono) simp
    then have "(of_int \<lfloor>- y * 10 ^ 6 + 1 / 2\<rfloor> :: real) \<le> of_int \<lfloor>- x * 10 ^ 6 + 1 / 2\<rfloor>"
      by simp
    then show ?thesis
      using False yneg by (simp add: toFixed6_def divide_right_mono)
  qed
qed

lemma round_half_err: "\<bar>of_int \<lfloor>z + 1 / 2\<rfloor> - (z::real)\<bar> \<le> 1 / 2"
  by linarith

lemma toFixed6_err: "\<bar>toFixed6 x - x\<bar> \<le> 1 / 2000000"
proof (cases "0 \<le> x")
  case True
  have "\<bar>of_int \<lfloor>x * 10 ^ 6 + 1 / 2\<rfloor> - x * 10 ^ 6\<bar> \<le> 1 / 2"
    by (rule round_half_err)
  then show ?thesis using True
    by (simp add: toFixed6_def field_simps abs_le_iff)
next
  case False
  define n :: real where "n = of_int \<lfloor>- x * 10 ^ 6 + 1 / 2\<rfloor>"
  have "\<bar>n - (- x * 10 ^ 6)\<bar> \<le> 1 / 2"
    unfolding n_def by (rule round_half_err)
  then have "\<bar>- (n / 10 ^ 6) - x\<bar> \<le> 1 / 2000000"
    unfolding abs_le_iff by (simp add: field_simps)
  then show ?thesis using False
    by (simp add: toFixed6_def n_def)
qed

lemma cost_sym: "cost q r b = cost r q b"
  by (simp add: cost_def add.commute)

lemma cost_buy_le:
  assumes "0 < b" "0 \<le> d"
  shows "cost (q + d) r b - cost q r b \<le> d"
proof -
  let ?s = "exp (q / b) + exp (r / b)"
  have spos: "0 < ?s" by (simp add: add_pos_pos)
  have e1: "1 \<le> exp (d / b)" using assms by simp
  have "exp ((q + d) / b) + exp (r / b) = exp (d / b) * exp (q / b) + exp (r / b)"
    by (simp add: add_divide_distrib exp_add mult.commute)
  also have "\<dots> \<le> exp (d / b) * exp (q / b) + exp (d / b) * exp (r / b)"
    using e1 by (simp add: mult_le_cancel_right1)
  also have "\<dots> = exp (d / b) * ?s" by (simp add: distrib_left)
  finally have le: "exp ((q + d) / b) + exp (r / b) \<le> exp (d / b) * ?s" .
  have pos2: "0 < exp ((q + d) / b) + exp (r / b)" by (simp add: add_pos_pos)
  have "ln (exp ((q + d) / b) + exp (r / b)) \<le> ln (exp (d / b) * ?s)"
    using le pos2 by simp
  also have "\<dots> = d / b + ln ?s"
    using spos by (simp add: ln_mult)
  finally have "b * ln (exp ((q + d) / b) + exp (r / b)) \<le> b * (d / b + ln ?s)"
    using assms(1) by simp
  also have "\<dots> = d + b * ln ?s" using assms(1) by (simp add: distrib_left)
  finally show ?thesis by (simp add: cost_def)
qed

lemma cost_buy_pos:
  assumes "0 < b" "0 < d"
  shows "0 < cost (q + d) r b - cost q r b"
proof -
  have "q / b < (q + d) / b" using assms by (simp add: divide_strict_right_mono)
  then have "exp (q / b) + exp (r / b) < exp ((q + d) / b) + exp (r / b)" by simp
  moreover have "0 < exp (q / b) + exp (r / b)" by (simp add: add_pos_pos)
  ultimately have "ln (exp (q / b) + exp (r / b)) < ln (exp ((q + d) / b) + exp (r / b))"
    by (subst ln_less_cancel_iff) (simp_all add: add_pos_pos)
  then show ?thesis using assms(1) by (simp add: cost_def)
qed



section \<open>Market lifecycle\<close>

text \<open>
  Claim C5. For an existing market, a status change is accepted exactly for the eight
  pairs draft to active or cancelled, active to suspended, resolved or cancelled, and
  suspended to active, resolved or cancelled (the store accepting the update), and then
  the market carries the requested status; every other request, in particular every move
  out of resolved or cancelled, fails with InvalidTransition and leaves the whole store,
  hence the market's status, unchanged.
\<close>

theorem updateStatus_transitions:
  assumes "findById s mid = Some m"
  shows "(\<not> market_update_fails f \<longrightarrow>
            ((\<exists>d s'. updateStatus f s mid st = (Inr d, s')) \<longleftrightarrow>
             (m_status m, st) \<in> allowed_moves)) \<and>
         ((m_status m, st) \<in> allowed_moves \<and> \<not> market_update_fails f \<longrightarrow>
            updateStatus f s mid st =
              (Inr (m\<lparr>m_status := st\<rparr>),
               s\<lparr>markets := (markets s)(mid \<mapsto> m\<lparr>m_status := st\<rparr>)\<rparr>)) \<and>
         ((m_status m, st) \<notin> allowed_moves \<longrightarrow>
            updateStatus f s mid st = (Inl InvalidTransition, s))"
  using assms
  by (cases "m_status m"; cases st; simp add: updateStatus_def allowed_moves_def Let_def)

theorem updateStatus_transitions_witness:
  "updateStatus no_faults store1 ''m1'' Suspended =
     (Inr (market1\<lparr>m_status := Suspended\<rparr>),
      store1\<lparr>markets := (markets store1)(''m1'' \<mapsto> market1\<lparr>m_status := Suspended\<rparr>)\<rparr>) \<and>
   updateStatus no_faults (store2) ''m2'' Active = (Inl InvalidTransition, store2)"
proof -
  have a: "findById store1 ''m1'' = Some market1"
    by (simp add: findById_def store1_def market1_def)
  have b: "findById store2 ''m2'' = Some market2"
    by (simp add: findById_def store2_def market2_def)
  show ?thesis
    using updateStatus_transitions [OF a, of no_faults Suspended]
      updateStatus_transitions [OF b, of no_faults Active]
    by (simp add: allowed_moves_def market1_def market2_def no_faults_def)
qed

section \<open>Prices\<close>

lemma rawYesPrice_bounds: "0 < rawYesPrice st l \<and> rawYesPrice st l < 1"
  by (simp add: rawYesPrice_def Let_def add_pos_pos)

lemma getCurrentPrices_raw:
  "getCurrentPrices st l =
     \<lparr>yesPrice = toFixed6 (rawYesPrice st l), noPrice = toFixed6 (1 - rawYesPrice st l)\<rparr>"
proof -
  let ?b = "liquidityOrDefault l"
  let ?s = "exp (yesShares st / ?b) + exp (noShares st / ?b)"
  have "0 < ?s" by (simp add: add_pos_pos)
  then have "exp (noShares st / ?b) / ?s = 1 - exp (yesShares st / ?b) / ?s"
    by (simp add: field_simps)
  then show ?thesis
    by (simp add: getCurrentPrices_def rawYesPrice_def Let_def)
qed

lemma toFixed6_unit:
  assumes "0 \<le> p" "p \<le> 1"
  shows "0 \<le> toFixed6 p \<and> toFixed6 p \<le> 1"
proof -
  have "toFixed6 0 \<le> toFixed6 p" "toFixed6 p \<le> toFixed6 1"
    using assms by (auto intro: toFixed6_mono)
  moreover have "toFixed6 0 = 0" "toFixed6 1 = 1" by (simp_all add: toFixed6_def)
  ultimately show ?thesis by simp
qed

lemma toFixed6_complement:
  assumes "0 \<le> p" "p \<le> 1"
  shows "toFixed6 p + toFixed6 (1 - p) =
           (if of_int \<lfloor>p * 10 ^ 6 + 1 / 2\<rfloor> = p * 10 ^ 6 + 1 / 2 then 1 + 1 / 10 ^ 6 else 1)"
proof -
  define x where "x = p * 10 ^ 6"
  define n where "n = \<lfloor>x + 1 / 2\<rfloor>"
  have n1: "of_int n \<le> x + 1 / 2" and n2: "x + 1 / 2 < of_int n + 1"
    unfolding n_def by linarith+
  have c: "(1 - p) * 10 ^ 6 + 1 / 2 = 10 ^ 6 - x + 1 / 2"
    by (simp add: x_def algebra_simps)
  show ?thesis
  proof (cases "of_int n = x + 1 / 2")
    case True
    then have "10 ^ 6 - x + 1 / 2 = of_int (10 ^ 6 - n + 1)" by simp
    then have "\<lfloor>10 ^ 6 - x + 1 / 2\<rfloor> = 10 ^ 6 - n + 1"
      by (metis floor_of_int)
    then have "toFixed6 (1 - p) = of_int (10 ^ 6 - n + 1) / 10 ^ 6"
      using assms c by (simp add: toFixed6_def)
    moreover have "toFixed6 p = of_int n / 10 ^ 6"
      using assms by (simp add: toFixed6_def n_def x_def)
    ultimately show ?thesis using True
      by (simp add: n_def x_def field_simps)
  next
    case False
    with n1 have lt: "of_int n < x + 1 / 2" by simp
    have "\<lfloor>10 ^ 6 - x + 1 / 2\<rfloor> = 10 ^ 6 - n"
      using lt n2 by (intro floor_unique) simp_all
    then have "toFixed6 (1 - p) = of_int (10 ^ 6 - n) / 10 ^ 6"
      using assms c by (simp add: toFixed6_def)
    moreover have "toFixed6 p = of_int n / 10 ^ 6"
      using assms by (simp add: toFixed6_def n_def x_def)
    ultimately show ?thesis using False
      by (simp add: n_def x_def field_simps)
  qed
qed

text \<open>
  Claim C7, as amended. For every state and liquidity, \<open>getCurrentPrices\<close> returns a
  YES price and a NO price in the closed interval from 0 to 1. Their sum is exactly 1
  unless the unrounded YES price lies exactly halfway between two multiples of one
  millionth (both prices are then rounded up and the sum is 1.000001), so the sum is
  always within one millionth of 1. With equal share quantities both prices are exactly
  one half.
\<close>

theorem getCurrentPrices_rounded:
  "0 \<le> yesPrice (getCurrentPrices st l) \<and> yesPrice (getCurrentPrices st l) \<le> 1 \<and>
   0 \<le> noPrice (getCurrentPrices st l) \<and> noPrice (getCurrentPrices st l) \<le> 1 \<and>
   (of_int \<lfloor>rawYesPrice st l * 10 ^ 6 + 1 / 2\<rfloor> \<noteq> rawYesPrice st l * 10 ^ 6 + 1 / 2 \<longrightarrow>
      yesPrice (getCurrentPrices st l) + noPrice (getCurrentPrices st l) = 1) \<and>
   \<bar>yesPrice (getCurrentPrices st l) + noPrice (getCurrentPrices st l) - 1\<bar> \<le> 1 / 10 ^ 6 \<and>
   (yesShares st = noShares st \<longrightarrow>
      yesPrice (getCurrentPrices st l) = 1 / 2 \<and> noPrice (getCurrentPrices st l) = 1 / 2)"
proof -
  let ?p = "rawYesPrice st l"
  have b: "0 \<le> ?p" "?p \<le> 1" "0 \<le> 1 - ?p" "1 - ?p \<le> 1"
    using rawYesPrice_bounds [of st l] by simp_all
  have y: "yesPrice (getCurrentPrices st l) = toFixed6 ?p"
    and n: "noPrice (getCurrentPrices st l) = toFixed6 (1 - ?p)"
    by (simp_all add: getCurrentPrices_raw)
  have s: "toFixed6 ?p + toFixed6 (1 - ?p) =
      (if of_int \<lfloor>?p * 10 ^ 6 + 1 / 2\<rfloor> = ?p * 10 ^ 6 + 1 / 2 then 1 + 1 / 10 ^ 6 else 1)"
    using b by (intro toFixed6_complement) simp_all
  have half: "yesShares st = noShares st \<Longrightarrow> ?p = 1 / 2"
    by (simp add: rawYesPrice_def Let_def)
  have h2: "toFixed6 (1 / 2) = 1 / 2" by (simp add: toFixed6_def)
  have "0 \<le> toFixed6 ?p \<and> toFixed6 ?p \<le> 1" using b by (intro toFixed6_unit) simp_all
  moreover have "0 \<le> toFixed6 (1 - ?p) \<and> toFixed6 (1 - ?p) \<le> 1"
    using b by (intro toFixed6_unit) simp_all
  moreover have "\<bar>toFixed6 ?p + toFixed6 (1 - ?p) - 1\<bar> \<le> 1 / 10 ^ 6"
    unfolding s by simp
  moreover have "of_int \<lfloor>?p * 10 ^ 6 + 1 / 2\<rfloor> \<noteq> ?p * 10 ^ 6 + 1 / 2 \<longrightarrow>
      toFixed6 ?p + toFixed6 (1 - ?p) = 1"
    unfolding s by simp
  moreover have "yesShares st = noShares st \<longrightarrow> toFixed6 ?p = 1 / 2 \<and> toFixed6 (1 - ?p) = 1 / 2"
  proof
    assume "yesShares st = noShares st"
    then have p: "?p = 1 / 2" by (rule half)
    then have q: "1 - ?p = 1 / 2" by simp
    have "toFixed6 ?p = 1 / 2" by (subst p) (rule h2)
    moreover have "toFixed6 (1 - ?p) = 1 / 2" by (subst q) (rule h2)
    ultimately show "toFixed6 ?p = 1 / 2 \<and> toFixed6 (1 - ?p) = 1 / 2" ..
  qed
  ultimately show ?thesis unfolding y n by blast
qed

theorem getCurrentPrices_rounded_witness:
  "yesPrice (getCurrentPrices \<lparr>yesShares = 0, noShares = 0\<rparr> (Some 1000)) = 1 / 2 \<and>
   noPrice (getCurrentPrices \<lparr>yesShares = 0, noShares = 0\<rparr> (Some 1000)) = 1 / 2 \<and>
   yesPrice (getCurrentPrices \<lparr>yesShares = 0, noShares = 0\<rparr> (Some 1000)) +
   noPrice (getCurrentPrices \<lparr>yesShares = 0, noShares = 0\<rparr> (Some 1000)) = 1"
proof -
  have r: "rawYesPrice \<lparr>yesShares = 0, noShares = 0\<rparr> (Some 1000) = 1 / 2"
    by (simp add: rawYesPrice_def liquidityOrDefault_def)
  have t: "of_int \<lfloor>rawYesPrice \<lparr>yesShares = 0, noShares = 0\<rparr> (Some 1000) * 10 ^ 6 + 1 / 2\<rfloor>
      \<noteq> rawYesPrice \<lparr>yesShares = 0, noShares = 0\<rparr> (Some 1000) * 10 ^ 6 + 1 / 2"
    unfolding r by simp
  show ?thesis
    using getCurrentPrices_rounded [of "\<lparr>yesShares = 0, noShares = 0\<rparr>" "Some 1000"] t
    by simp
qed

lemma exp_100_big: "(2000000::real) \<le> exp 100"
proof -
  have "(11::real) \<le> exp 10" using exp_ge_add_one_self [of "10::real"] by simp
  then have "(11::real) ^ 10 \<le> exp 10 ^ 10" by (intro power_mono) simp_all
  also have "exp (10::real) ^ 10 = exp 100"
    using exp_of_nat_mult [of 10 "10::real"] by simp
  finally show ?thesis by simp
qed

text \<open>
  With 1000 YES shares, no NO shares and liquidity 10 the rounded YES price is exactly 1
  and the rounded NO price exactly 0: the prices are not strictly between 0 and 1.
\<close>

theorem getCurrentPrices_saturates:
  "yesPrice (getCurrentPrices \<lparr>yesShares = 1000, noShares = 0\<rparr> (Some 10)) = 1 \<and>
   noPrice (getCurrentPrices \<lparr>yesShares = 1000, noShares = 0\<rparr> (Some 10)) = 0"
proof -
  define p where "p = rawYesPrice \<lparr>yesShares = 1000, noShares = 0\<rparr> (Some 10)"
  define q where "q = 1 - p"
  have e: "(2000000::real) \<le> exp 100" by (rule exp_100_big)
  have "p = exp 100 / (exp 100 + 1)"
    by (simp add: p_def rawYesPrice_def liquidityOrDefault_def)
  then have qe: "q = 1 / (exp 100 + 1)"
    unfolding q_def using e by (simp add: field_simps)
  have small: "1 / (exp 100 + 1) < (1::real) / 2000000"
    using e by (simp add: field_simps)
  have nonneg: "(0::real) \<le> 1 / (exp 100 + 1)"
    using e by simp
  have q1: "0 \<le> q" and q2: "q < 1 / 2000000"
    unfolding qe using small nonneg by blast+
  have pq: "p = 1 - q" by (simp add: q_def)
  have "\<lfloor>q * 10 ^ 6 + 1 / 2\<rfloor> = 0"
    using q1 q2 by (simp add: floor_eq_iff)
  then have n0: "toFixed6 q = 0" using q1 by (simp add: toFixed6_def)
  have "\<lfloor>p * 10 ^ 6 + 1 / 2\<rfloor> = 1000000"
    using q1 q2 unfolding pq by (simp add: floor_eq_iff)
  moreover have "0 \<le> p" using q2 unfolding pq by simp
  ultimately have y1: "toFixed6 p = 1" by (simp add: toFixed6_def)
  show ?thesis using y1 n0 by (simp add: getCurrentPrices_raw p_def [symmetric] q_def [symmetric])
qed


section \<open>Selling into the market maker\<close>





section \<open>Buying by amount\<close>

lemma bisection_Suc:
  "bisection st sd a l (Suc n) lo hi =
     (if \<bar>feeFreeCost st sd l ((lo + hi) / 2) - a / (1 + FEE_RATE)\<bar> < 1 / 10000
      then \<lparr>sa_shares = toFixed6 ((lo + hi) / 2), sa_avgPrice = toFixed6 (a / ((lo + hi) / 2))\<rparr>
      else if feeFreeCost st sd l ((lo + hi) / 2) < a / (1 + FEE_RATE)
      then bisection st sd a l n ((lo + hi) / 2) hi
      else bisection st sd a l n lo ((lo + hi) / 2))"
  by (simp only: bisection.simps feeFreeCost_def Let_def)





lemma fee_rate_sum: "1 + FEE_RATE = 102 / 100"
  by (simp add: FEE_RATE_def)

lemma rawBuyCost_bounds:
  assumes "0 < b" "0 \<le> d"
  shows "0 \<le> rawBuyCost st sd d b \<and> rawBuyCost st sd d b \<le> d"
proof (cases "d = 0")
  case True
  then show ?thesis by (simp add: rawBuyCost_def)
next
  case False
  with assms have dpos: "0 < d" by simp
  show ?thesis
  proof (cases sd)
    case Yes
    then show ?thesis
      using cost_buy_pos [OF assms(1) dpos, of "yesShares st" "noShares st"]
        cost_buy_le [OF assms, of "yesShares st" "noShares st"]
      by (simp add: rawBuyCost_def)
  next
    case No
    then show ?thesis
      using cost_buy_pos [OF assms(1) dpos, of "noShares st" "yesShares st"]
        cost_buy_le [OF assms, of "noShares st" "yesShares st"]
      by (simp add: rawBuyCost_def cost_sym [of "yesShares st"])
  qed
qed

lemma calculateBuyCost_cost:
  "b \<noteq> 0 \<Longrightarrow> tr_cost (calculateBuyCost st sd d (Some b)) =
     toFixed6 (rawBuyCost st sd d b + rawBuyCost st sd d b * FEE_RATE)"
  by (simp add: calculateBuyCost_def rawBuyCost_def liquidityOrDefault_def Let_def)


lemma feeFreeCost_bounds:
  assumes "0 < b" "0 \<le> d"
  shows "0 \<le> feeFreeCost st sd (Some b) d \<and> feeFreeCost st sd (Some b) d \<le> d + 1 / 2000000"
proof -
  define r where "r = rawBuyCost st sd d b"
  have r: "0 \<le> r" "r \<le> d" using rawBuyCost_bounds [OF assms, of st sd] by (simp_all add: r_def)
  define t where "t = toFixed6 (r + r * FEE_RATE)"
  have c: "feeFreeCost st sd (Some b) d = t / (1 + FEE_RATE)"
    using assms(1) by (simp add: feeFreeCost_def calculateBuyCost_cost r_def t_def)
  have "0 \<le> r + r * FEE_RATE" using r by (simp add: FEE_RATE_def)
  then have t0: "0 \<le> t" unfolding t_def by (rule toFixed6_nonneg)
  have "\<bar>t - (r + r * FEE_RATE)\<bar> \<le> 1 / 2000000" unfolding t_def by (rule toFixed6_err)
  then have "\<bar>t - (r + r * (2 / 100))\<bar> \<le> 1 / 2000000" unfolding FEE_RATE_def .
  then have "t \<le> r * (102 / 100) + 1 / 2000000" by linarith
  then have "t / (102 / 100) \<le> r + (1 / 2000000) / (102 / 100)"
    by (simp add: field_simps)
  also have "\<dots> \<le> d + 1 / 2000000" using r by simp
  finally have "t / (102 / 100) \<le> d + 1 / 2000000" .
  moreover have "0 \<le> t / (102 / 100)" using t0 by simp
  ultimately show ?thesis unfolding c fee_rate_sum by simp
qed


text \<open>
  A buy by amount receives a positive number of shares: the bisection never returns a
  midpoint below half of the amount without its fee.
\<close>

lemma bisection_shares_lower:
  assumes "0 < b" "0 \<le> lo" "lo \<le> hi" "c \<le> hi"
    and c: "c = a / (1 + FEE_RATE) - 1 / 10000 - 1 / 2000000"
  shows "toFixed6 (c / 2) \<le> sa_shares (bisection st sd a (Some b) n lo hi)"
  using assms(2-4)
proof (induction n arbitrary: lo hi)
  case 0
  have "c / 2 \<le> (lo + hi) / 2" using 0 by simp
  then show ?case by (simp add: Let_def toFixed6_mono)
next
  case (Suc n)
  define mid where "mid = (lo + hi) / 2"
  have m0: "0 \<le> mid" "lo \<le> mid" "mid \<le> hi" using Suc.prems by (simp_all add: mid_def)
  have fb: "feeFreeCost st sd (Some b) mid \<le> mid + 1 / 2000000"
    using feeFreeCost_bounds [OF assms(1) m0(1), of st sd] by simp
  show ?case
  proof (cases "\<bar>feeFreeCost st sd (Some b) mid - a / (1 + FEE_RATE)\<bar> < 1 / 10000")
    case True
    then have "c < mid" using fb unfolding c by linarith
    then have "toFixed6 (c / 2) \<le> toFixed6 mid" using m0(1) by (intro toFixed6_mono) simp
    moreover have "bisection st sd a (Some b) (Suc n) lo hi =
        \<lparr>sa_shares = toFixed6 mid, sa_avgPrice = toFixed6 (a / mid)\<rparr>"
      unfolding mid_def by (subst bisection_Suc) (simp only: True [unfolded mid_def] if_True)
    ultimately show ?thesis by simp
  next
    case nc: False
    show ?thesis
    proof (cases "feeFreeCost st sd (Some b) mid < a / (1 + FEE_RATE)")
      case True
      have "bisection st sd a (Some b) (Suc n) lo hi = bisection st sd a (Some b) n mid hi"
        unfolding mid_def
        by (subst bisection_Suc) (simp only: nc [unfolded mid_def] True [unfolded mid_def] if_True if_False)
      moreover have "toFixed6 (c / 2) \<le> sa_shares (bisection st sd a (Some b) n mid hi)"
        using m0 Suc.prems by (intro Suc.IH) simp_all
      ultimately show ?thesis by simp
    next
      case ge: False
      then have "c \<le> mid" using fb unfolding c by linarith
      have "bisection st sd a (Some b) (Suc n) lo hi = bisection st sd a (Some b) n lo mid"
        unfolding mid_def
        by (subst bisection_Suc) (simp only: nc [unfolded mid_def] ge [unfolded mid_def] if_True if_False)
      moreover have "toFixed6 (c / 2) \<le> sa_shares (bisection st sd a (Some b) n lo mid)"
        using m0 Suc.prems \<open>c \<le> mid\<close> by (intro Suc.IH) simp_all
      ultimately show ?thesis by simp
    qed
  qed
qed

lemma calculateSharesForAmount_shares_lower:
  assumes "0 < b" "0 \<le> a"
  shows "toFixed6 ((a / (1 + FEE_RATE) - 1 / 10000 - 1 / 2000000) / 2)
           \<le> sa_shares (calculateSharesForAmount st sd a (Some b))"
proof -
  have "a / (1 + FEE_RATE) \<le> a * 10" using assms(2) by (simp add: fee_rate_sum)
  then have "a / (1 + FEE_RATE) - 1 / 10000 - 1 / 2000000 \<le> a * 10" by simp
  then show ?thesis
    unfolding calculateSharesForAmount_def
    using assms by (intro bisection_shares_lower) simp_all
qed

lemma shares_for_10: 
  assumes "0 < b"
  shows "4 \<le> sa_shares (calculateSharesForAmount st sd 10 (Some b))"
proof -
  have "(4::real) \<le> (10 / (1 + FEE_RATE) - 1 / 10000 - 1 / 2000000) / 2"
    by (simp add: fee_rate_sum)
  then have "toFixed6 4 \<le> toFixed6 ((10 / (1 + FEE_RATE) - 1 / 10000 - 1 / 2000000) / 2)"
    by (rule toFixed6_mono)
  moreover have "toFixed6 4 = 4" by (simp add: toFixed6_def)
  ultimately show ?thesis
    using calculateSharesForAmount_shares_lower [OF assms, of 10 st sd] by simp
qed


section \<open>Position accounting\<close>








section \<open>Wallet ledger operations\<close>

text \<open>
  Claim C6, as amended. For a wallet with a non-negative balance, each of deposit,
  withdraw, deductForTrade, addFromTrade and settlePosition that succeeds sets the balance
  to the old balance plus the signed amount (positive for the three credits, negative for
  the two debits) and, when the store accepts the insert, appends exactly one ledger row,
  with \<open>balance_before\<close> the old balance, \<open>balance_after\<close> the new balance and
  \<open>balance_after = balance_before + amount\<close>. When the store refuses the insert, the
  operation still succeeds with the new balance and no row is appended. A debit whose
  amount exceeds the balance fails with InsufficientFunds, and every failing operation
  leaves the store unchanged.
\<close>

theorem wallet_op_ledger:
  assumes "findByUserId s u = Some w" and "0 \<le> balance w"
  shows "(\<forall>w' s'. runWalletOp f s u op = (Inr w', s') \<longrightarrow>
            w' = w\<lparr>balance := balance w + signedAmount op\<rparr> \<and>
            wallets s' = (wallets s)(u \<mapsto> w') \<and>
            balance_after (ledgerRow w op) = balance w' \<and>
            balance_after (ledgerRow w op) = balance_before (ledgerRow w op) + tx_amount (ledgerRow w op) \<and>
            (\<not> wallet_tx_insert_fails f \<longrightarrow>
               wallet_transactions s' = wallet_transactions s @ [ledgerRow w op]) \<and>
            (wallet_tx_insert_fails f \<longrightarrow> wallet_transactions s' = wallet_transactions s)) \<and>
         (isDebit op \<and> balance w < - signedAmount op \<longrightarrow>
            runWalletOp f s u op = (Inl InsufficientFunds, s)) \<and>
         (\<forall>e s'. runWalletOp f s u op = (Inl e, s') \<longrightarrow> s' = s)"
  using assms
  by (cases op)
     (auto simp: deposit_def withdraw_def deductForTrade_def addFromTrade_def settlePosition_def
        recordTransaction_def ledgerRow_def Let_def split: if_splits)

theorem wallet_op_ledger_witness:
  "runWalletOp no_faults store1 ''u1'' (OpWithdraw 100) =
     (Inr (wallet1\<lparr>balance := 0\<rparr>),
      store1\<lparr>wallets := [''u1'' \<mapsto> wallet1\<lparr>balance := 0\<rparr>],
             wallet_transactions :=
               [\<lparr>tx_wallet_id = ''w1'', tx_kind = Withdraw, tx_amount = - 100,
                 balance_before = 100, balance_after = 0, reference_id = None\<rparr>]\<rparr>) \<and>
   runWalletOp no_faults store1 ''u1'' (OpWithdraw 101) = (Inl InsufficientFunds, store1)"
proof -
  have find: "findByUserId store1 ''u1'' = Some wallet1"
    by (simp add: findByUserId_def store1_def wallet1_def)
  have bal: "0 \<le> balance wallet1" by (simp add: wallet1_def)
  have ok: "runWalletOp no_faults store1 ''u1'' (OpWithdraw 100) =
     (Inr (wallet1\<lparr>balance := 0\<rparr>),
      store1\<lparr>wallets := [''u1'' \<mapsto> wallet1\<lparr>balance := 0\<rparr>],
             wallet_transactions :=
               [\<lparr>tx_wallet_id = ''w1'', tx_kind = Withdraw, tx_amount = - 100,
                 balance_before = 100, balance_after = 0, reference_id = None\<rparr>]\<rparr>)"
    by (simp add: withdraw_def find recordTransaction_def no_faults_def Let_def)
       (simp add: store1_def wallet1_def)
  show ?thesis
    using wallet_op_ledger [OF find bal, of no_faults "OpWithdraw 101"] ok
    by (simp add: wallet1_def)
qed

text \<open>
  A deposit of 10 into a wallet holding 100, when the store refuses the insert into the
  ledger: the deposit succeeds, the balance is 110, and the ledger has no new row.
\<close>

theorem deposit_without_ledger_row:
  "map_sum id balance
     (fst (deposit (no_faults\<lparr>wallet_tx_insert_fails := True\<rparr>) store1 ''u1'' 10)) = Inr 110 \<and>
   map_option balance
     (wallets (snd (deposit (no_faults\<lparr>wallet_tx_insert_fails := True\<rparr>) store1 ''u1'' 10)) ''u1'')
     = Some 110 \<and>
   wallet_transactions (snd (deposit (no_faults\<lparr>wallet_tx_insert_fails := True\<rparr>) store1 ''u1'' 10))
     = wallet_transactions store1"
proof -
  have find: "findByUserId store1 ''u1'' = Some wallet1"
    by (simp add: findByUserId_def store1_def wallet1_def)
  show ?thesis
    by (simp add: deposit_def find recordTransaction_def no_faults_def Let_def wallet1_def)
qed

section \<open>Settlement of a resolved market\<close>

lemma settlePosition_ok:
  assumes "\<not> wallet_update_fails f" "findByUserId s u = Some w"
  shows "settlePosition f s u a mid =
     (Inr (credit a w),
      recordTransaction f (s\<lparr>wallets := (wallets s)(u \<mapsto> credit a w)\<rparr>)
        \<lparr>tx_wallet_id = w_id w, tx_kind = Settlement, tx_amount = a,
         balance_before = balance w, balance_after = balance w + a,
         reference_id = Some mid\<rparr>)"
  using assms by (simp add: settlePosition_def credit_def Let_def)

lemma findByUserId_Some: "findByUserId s u = Some w \<longleftrightarrow> wallets s u = Some w \<and> w_user_id w = u"
  by (auto simp: findByUserId_def split: option.splits if_splits)

lemma credit_credit: "credit a (credit b w) = credit (b + a) w"
  by (simp add: credit_def add.assoc)

lemma credit_zero: "credit 0 w = w"
  by (simp add: credit_def)

lemma settleLoop_effect:
  assumes nf: "\<not> wallet_update_fails f"
    and ws: "\<forall>p \<in> set ps. findByUserId s (p_user_id p) \<noteq> None"
  shows "\<exists>s' rows. settleLoop f s outcome mid ps = (Inr (), s') \<and>
           positions s' = positions s \<and> markets s' = markets s \<and> trades s' = trades s \<and>
           (\<forall>u. wallets s' u = map_option (credit (payout outcome u ps)) (wallets s u)) \<and>
           wallet_transactions s' = wallet_transactions s @ rows \<and>
           (if wallet_tx_insert_fails f then rows = []
            else map ledgerEntry rows = map (settlementEntry outcome mid) (creditedPositions outcome ps))"
  using ws
proof (induction ps arbitrary: s)
  case Nil
  show ?case
    by (simp add: payout_def creditedPositions_def credit_zero option.map_ident)
next
  case (Cons p rest)
  show ?case
  proof (cases "0 < winningShares outcome p")
    case False
    have "\<forall>q \<in> set rest. findByUserId s (p_user_id q) \<noteq> None" using Cons.prems by simp
    from Cons.IH [OF this] obtain s' rows where
      "settleLoop f s outcome mid rest = (Inr (), s')"
      "positions s' = positions s" "markets s' = markets s" "trades s' = trades s"
      "\<forall>u. wallets s' u = map_option (credit (payout outcome u rest)) (wallets s u)"
      "wallet_transactions s' = wallet_transactions s @ rows"
      "if wallet_tx_insert_fails f then rows = []
       else map ledgerEntry rows = map (settlementEntry outcome mid) (creditedPositions outcome rest)"
      by blast
    then show ?thesis using False
      by (intro exI [of _ s'] exI [of _ rows]) (simp add: payout_def creditedPositions_def)
  next
    case True
    define u0 where "u0 = p_user_id p"
    define a where "a = winningShares outcome p"
    obtain w where w: "findByUserId s u0 = Some w"
      using Cons.prems by (auto simp: u0_def)
    define row where "row = \<lparr>tx_wallet_id = w_id w, tx_kind = Settlement, tx_amount = a,
         balance_before = balance w, balance_after = balance w + a,
         reference_id = Some mid\<rparr>"
    define s1 where "s1 = recordTransaction f (s\<lparr>wallets := (wallets s)(u0 \<mapsto> credit a w)\<rparr>) row"
    have step: "settlePosition f s u0 a mid = (Inr (credit a w), s1)"
      unfolding s1_def row_def by (rule settlePosition_ok [OF nf w])
    have s1w: "wallets s1 = (wallets s)(u0 \<mapsto> credit a w)"
      and s1p: "positions s1 = positions s" and s1m: "markets s1 = markets s"
      and s1t: "trades s1 = trades s"
      and s1x: "wallet_transactions s1 =
                  wallet_transactions s @ (if wallet_tx_insert_fails f then [] else [row])"
      by (simp_all add: s1_def recordTransaction_def)
    have "\<forall>q \<in> set rest. findByUserId s1 (p_user_id q) \<noteq> None"
    proof
      fix q assume "q \<in> set rest"
      then obtain wq where wq: "findByUserId s (p_user_id q) = Some wq"
        using Cons.prems by auto
      show "findByUserId s1 (p_user_id q) \<noteq> None"
      proof (cases "p_user_id q = u0")
        case True
        have "w_user_id w = u0" using w by (simp add: findByUserId_Some)
        then show ?thesis using True
          by (simp add: findByUserId_def s1w credit_def)
      next
        case False
        then show ?thesis using wq by (simp add: findByUserId_def s1w)
      qed
    qed
    from Cons.IH [OF this] obtain s' rows where r:
      "settleLoop f s1 outcome mid rest = (Inr (), s')"
      "positions s' = positions s1" "markets s' = markets s1" "trades s' = trades s1"
      "\<forall>u. wallets s' u = map_option (credit (payout outcome u rest)) (wallets s1 u)"
      "wallet_transactions s' = wallet_transactions s1 @ rows"
      "if wallet_tx_insert_fails f then rows = []
       else map ledgerEntry rows = map (settlementEntry outcome mid) (creditedPositions outcome rest)"
      by blast
    have loop: "settleLoop f s outcome mid (p # rest) = (Inr (), s')"
      using True step r(1) by (simp add: u0_def a_def)
    have wal: "\<forall>u. wallets s' u = map_option (credit (payout outcome u (p # rest))) (wallets s u)"
    proof
      fix u
      show "wallets s' u = map_option (credit (payout outcome u (p # rest))) (wallets s u)"
      proof (cases "u = u0")
        case True
        have "wallets s u0 = Some w" using w by (simp add: findByUserId_Some)
        moreover have "payout outcome u0 (p # rest) = a + payout outcome u0 rest"
          using \<open>0 < winningShares outcome p\<close>
          by (simp add: payout_def creditedPositions_def u0_def a_def)
        ultimately show ?thesis using True r(5)
          by (simp add: s1w credit_credit)
      next
        case False
        then have "payout outcome u (p # rest) = payout outcome u rest"
          by (simp add: payout_def creditedPositions_def u0_def)
        then show ?thesis using False r(5) by (simp add: s1w)
      qed
    qed
    define rows' where "rows' = (if wallet_tx_insert_fails f then [] else [row]) @ rows"
    have tx: "wallet_transactions s' = wallet_transactions s @ rows'"
      using r(6) by (simp add: s1x rows'_def)
    have ent: "if wallet_tx_insert_fails f then rows' = []
       else map ledgerEntry rows' =
            map (settlementEntry outcome mid) (creditedPositions outcome (p # rest))"
      using r(7) True
      by (simp add: rows'_def creditedPositions_def ledgerEntry_def settlementEntry_def row_def a_def)
    show ?thesis
      using loop wal tx ent r(2-4)
      by (intro exI [of _ s'] exI [of _ rows']) (simp add: s1p s1m s1t)
  qed
qed


lemma settleMarket_effect:
  assumes mk: "findById s mid = Some mk" "m_status mk = Resolved" "m_outcome mk = Some outcome"
    and nf: "\<not> wallet_update_fails f" "\<not> position_list_fails f"
    and ws: "\<forall>p \<in> set (marketPositions s mid). findByUserId s (p_user_id p) \<noteq> None"
  shows "\<exists>s' rows. settleMarket f s mid = (Inr (length (marketPositions s mid)), s') \<and>
           positions s' = positions s \<and> markets s' = markets s \<and> trades s' = trades s \<and>
           (\<forall>u. wallets s' u =
                  map_option (credit (payout outcome u (marketPositions s mid))) (wallets s u)) \<and>
           wallet_transactions s' = wallet_transactions s @ rows \<and>
           (if wallet_tx_insert_fails f then rows = []
            else map ledgerEntry rows =
                 map (settlementEntry outcome mid)
                   (creditedPositions outcome (marketPositions s mid)))"
proof -
  from settleLoop_effect [OF nf(1) ws, of outcome mid] obtain s' rows where r:
    "settleLoop f s outcome mid (marketPositions s mid) = (Inr (), s')"
    "positions s' = positions s" "markets s' = markets s" "trades s' = trades s"
    "\<forall>u. wallets s' u =
          map_option (credit (payout outcome u (marketPositions s mid))) (wallets s u)"
    "wallet_transactions s' = wallet_transactions s @ rows"
    "if wallet_tx_insert_fails f then rows = []
     else map ledgerEntry rows =
          map (settlementEntry outcome mid) (creditedPositions outcome (marketPositions s mid))"
    by blast
  have "settleMarket f s mid = (Inr (length (marketPositions s mid)), s')"
    using mk nf(2) r(1)
    by (simp add: settleMarket_def findByMarket_def marketPositions_def)
  then show ?thesis using r(2-7) by blast
qed

text \<open>
  Claim C2, as amended. For a resolved market with outcome \<open>o\<close> whose position holders
  all have a wallet (the store accepting the reads and wallet updates), \<open>settleMarket\<close>
  credits every position whose winning-side shares are positive with exactly that many
  units, in one ledger row of kind settlement that refers to the market, credits nothing
  else, leaves the positions, markets and trades unchanged, and returns the number of all
  positions of the market, credited or not.
\<close>

theorem settleMarket_credits:
  assumes "findById s mid = Some mk" "m_status mk = Resolved" "m_outcome mk = Some outcome"
    and "\<not> wallet_update_fails f" "\<not> position_list_fails f"
    and "\<forall>p \<in> set (marketPositions s mid). findByUserId s (p_user_id p) \<noteq> None"
  shows "fst (settleMarket f s mid) = Inr (length (marketPositions s mid)) \<and>
         positions (snd (settleMarket f s mid)) = positions s \<and>
         markets (snd (settleMarket f s mid)) = markets s \<and>
         trades (snd (settleMarket f s mid)) = trades s \<and>
         (\<forall>u. wallets (snd (settleMarket f s mid)) u =
                map_option (credit (payout outcome u (marketPositions s mid))) (wallets s u)) \<and>
         (\<exists>rows. wallet_transactions (snd (settleMarket f s mid)) = wallet_transactions s @ rows \<and>
            (if wallet_tx_insert_fails f then rows = []
             else map ledgerEntry rows =
                  map (settlementEntry outcome mid)
                    (creditedPositions outcome (marketPositions s mid))))"
proof -
  from settleMarket_effect [OF assms] obtain s' rows where
    "settleMarket f s mid = (Inr (length (marketPositions s mid)), s')"
    "positions s' = positions s" "markets s' = markets s" "trades s' = trades s"
    "\<forall>u. wallets s' u =
          map_option (credit (payout outcome u (marketPositions s mid))) (wallets s u)"
    "wallet_transactions s' = wallet_transactions s @ rows"
    "if wallet_tx_insert_fails f then rows = []
     else map ledgerEntry rows =
          map (settlementEntry outcome mid) (creditedPositions outcome (marketPositions s mid))"
    by blast
  then show ?thesis by auto
qed

lemma store2_market: "findById store2 ''m2'' = Some market2"
  by (simp add: findById_def store2_def market2_def)

lemma store2_positions: "marketPositions store2 ''m2'' = [positionA, positionB]"
  by (simp add: marketPositions_def store2_def positionA_def positionB_def)

lemma store2_holders:
  "\<forall>p \<in> set (marketPositions store2 ''m2''). findByUserId store2 (p_user_id p) \<noteq> None"
  unfolding store2_positions
  by (simp add: findByUserId_def store2_def positionA_def positionB_def walletA_def walletB_def)

lemma store2_payout:
  "payout Yes ''uA'' [positionA, positionB] = 50" "payout Yes ''uB'' [positionA, positionB] = 0"
  by (simp_all add: payout_def creditedPositions_def winningShares_def positionA_def positionB_def)

theorem settleMarket_credits_witness:
  "fst (settleMarket no_faults store2 ''m2'') = Inr 2 \<and>
   positions (snd (settleMarket no_faults store2 ''m2'')) = [positionA, positionB] \<and>
   wallets (snd (settleMarket no_faults store2 ''m2'')) ''uA'' = Some (walletA\<lparr>balance := 50\<rparr>) \<and>
   wallets (snd (settleMarket no_faults store2 ''m2'')) ''uB'' = Some walletB"
proof -
  have a: "m_status market2 = Resolved" "m_outcome market2 = Some Yes"
    by (simp_all add: market2_def)
  have b: "\<not> wallet_update_fails no_faults" "\<not> position_list_fails no_faults"
    by (simp_all add: no_faults_def)
  have c: "wallets store2 ''uA'' = Some walletA" "wallets store2 ''uB'' = Some walletB"
    "positions store2 = [positionA, positionB]"
    by (simp_all add: store2_def)
  have d: "credit 50 walletA = walletA\<lparr>balance := 50\<rparr>" "credit 0 walletB = walletB"
    by (simp_all add: credit_def walletA_def walletB_def)
  show ?thesis
    using settleMarket_credits [OF store2_market a b store2_holders]
    by (simp add: store2_positions store2_payout c d)
qed

text \<open>
  In the fourth scenario the market has two positions and only the YES holder is
  credited: \<open>settleMarket\<close> returns 2, not the number of credited positions, 1.
\<close>

theorem settleMarket_counts_losing_positions:
  "fst (settleMarket no_faults store2 ''m2'') = Inr 2 \<and>
   length (creditedPositions Yes (marketPositions store2 ''m2'')) = 1"
proof -
  have a: "m_status market2 = Resolved" "m_outcome market2 = Some Yes"
    by (simp_all add: market2_def)
  have b: "\<not> wallet_update_fails no_faults" "\<not> position_list_fails no_faults"
    by (simp_all add: no_faults_def)
  have "fst (settleMarket no_faults store2 ''m2'') = Inr 2"
    using settleMarket_effect [OF store2_market a b store2_holders]
    by (auto simp: store2_positions)
  moreover have "length (creditedPositions Yes (marketPositions store2 ''m2'')) = 1"
    by (simp add: store2_positions creditedPositions_def winningShares_def positionA_def
        positionB_def)
  ultimately show ?thesis ..
qed

section \<open>Settling twice\<close>






section \<open>Aborted trades\<close>

lemma db_eqI:
  "wallets a = wallets b \<Longrightarrow> wallet_transactions a = wallet_transactions b \<Longrightarrow>
   markets a = markets b \<Longrightarrow> positions a = positions b \<Longrightarrow> trades a = trades b \<Longrightarrow>
   (a::db) = b"
  by simp

lemma findById_frame [simp]:
  "findById (s\<lparr>wallets := a\<rparr>) m = findById s m"
  "findById (s\<lparr>wallet_transactions := b\<rparr>) m = findById s m"
  "findById (s\<lparr>positions := c\<rparr>) m = findById s m"
  "findById (s\<lparr>trades := d\<rparr>) m = findById s m"
  "findById (recordTransaction f s row) m = findById s m"
  by (simp_all add: findById_def recordTransaction_def)

lemma findByUserAndMarket_frame [simp]:
  "findByUserAndMarket (s\<lparr>wallets := a\<rparr>) u m = findByUserAndMarket s u m"
  "findByUserAndMarket (s\<lparr>wallet_transactions := b\<rparr>) u m = findByUserAndMarket s u m"
  "findByUserAndMarket (s\<lparr>markets := c\<rparr>) u m = findByUserAndMarket s u m"
  "findByUserAndMarket (s\<lparr>trades := d\<rparr>) u m = findByUserAndMarket s u m"
  "findByUserAndMarket (recordTransaction f s row) u m = findByUserAndMarket s u m"
  by (simp_all add: findByUserAndMarket_def recordTransaction_def)

lemma executeBuy_abort:
  assumes mk: "findById s (m_id mk) = Some mk"
  shows "(\<forall>e s'. executeBuy no_faults s u mk st dto = (Inl e, s') \<longrightarrow>
       s' = s \<and> executeBuy f s u mk st dto = (Inl e, s)) \<and>
   (\<forall>t s4. executeBuy no_faults s u mk st dto = (Inr t, s4) \<longrightarrow>
       (\<exists>w. findByUserId s u = Some w \<and>
            wallets s4 = (wallets s)(u \<mapsto> w\<lparr>balance := balance w - t_cost t\<rparr>)) \<and>
       (wallet_update_fails f \<longrightarrow> executeBuy f s u mk st dto = (Inl Internal, s)) \<and>
       (\<not> wallet_update_fails f \<and>
        (market_update_fails f \<or> position_write_fails f \<or> trade_insert_fails f) \<longrightarrow>
          executeBuy f s u mk st dto = (Inl Internal, abortedStore f s s4)))"
proof (cases "buyQuote st dto (getLiquidityForMarket (m_liquidity mk))")
  case (Inl e)
  then show ?thesis by (simp add: executeBuy_def)
next
  case (Inr q)
  obtain sh paid ap where q: "q = (sh, paid, ap)" by (cases q) auto
  show ?thesis
  proof (cases "sh \<le> 0")
    case True
    then show ?thesis using Inr q by (simp add: executeBuy_def)
  next
    case False
    show ?thesis
    proof (cases "findByUserId s u")
      case None
      then show ?thesis using Inr q False
        by (simp add: executeBuy_def deductForTrade_def)
    next
      case (Some w)
      show ?thesis
      proof (cases "balance w < paid")
        case True
        then show ?thesis using Inr q False Some
          by (simp add: executeBuy_def deductForTrade_def)
      next
        case enough: False
        show ?thesis
          using Inr q False Some enough mk
          by (cases "findByUserAndMarket s u (m_id mk)")
             (auto simp: executeBuy_def deductForTrade_def updateShares_def createOrUpdate_def
                recordTrade_def recordTransaction_def abortedStore_def no_faults_def Let_def
                intro!: db_eqI)
      qed
    qed
  qed
qed

lemma executeSell_abort:
  assumes mk: "findById s (m_id mk) = Some mk"
  shows "(\<forall>e s'. executeSell no_faults s u mk st dto = (Inl e, s') \<longrightarrow>
       s' = s \<and> executeSell f s u mk st dto = (Inl e, s)) \<and>
   (\<forall>t s4. executeSell no_faults s u mk st dto = (Inr t, s4) \<longrightarrow>
       (\<exists>w. findByUserId s u = Some w \<and>
            wallets s4 = (wallets s)(u \<mapsto> w\<lparr>balance := balance w + t_cost t\<rparr>)) \<and>
       (wallet_update_fails f \<longrightarrow> executeSell f s u mk st dto = (Inl Internal, s)) \<and>
       (\<not> wallet_update_fails f \<and>
        (market_update_fails f \<or> position_write_fails f \<or> trade_insert_fails f) \<longrightarrow>
          executeSell f s u mk st dto = (Inl Internal, abortedStore f s s4)))"
proof (cases "truthy (d_shares dto)")
  case None
  then show ?thesis by (simp add: executeSell_def)
next
  case (Some sh)
  show ?thesis
  proof (cases "sh \<le> 0")
    case True
    then show ?thesis using Some by (simp add: executeSell_def)
  next
    case False
    show ?thesis
    proof (cases "findByUserAndMarket s u (m_id mk)")
      case None
      then show ?thesis using Some False by (simp add: executeSell_def)
    next
      case pos: (Some p)
      show ?thesis
      proof (cases "(if d_side dto = Yes then yes_shares p else no_shares p) < sh")
        case True
        then show ?thesis using Some False pos by (simp add: executeSell_def)
      next
        case held: False
        show ?thesis
        proof (cases "calculateSellReturn st (d_side dto) sh
                        (Some (getLiquidityForMarket (m_liquidity mk)))")
          case (Inl e)
          then show ?thesis using Some False pos held by (simp add: executeSell_def)
        next
          case (Inr r)
          show ?thesis
            using Some False pos held Inr mk
            by (cases "findByUserId s u")
               (auto simp: executeSell_def addFromTrade_def updateShares_def createOrUpdate_def
                  recordTrade_def recordTransaction_def abortedStore_def no_faults_def Let_def
                  intro!: db_eqI)
        qed
      qed
    qed
  qed
qed

text \<open>
  Claim C1, as amended. A trade, buy or sell, whose checks pass and whose writes all
  succeed debits (buy) or credits (sell) the wallet by the cost of the trade. The same
  trade under a store that refuses some write ends with an internal error, performs no
  later step and keeps every write made before the failing step: when the wallet update
  itself is refused, or a check fails, the store is unchanged; when the market update,
  the position write or the trade insert is refused, the wallet stays debited or
  credited with its ledger row, the market's quantities and volume stay updated if the
  market update came first, and the position stays updated if the position write came
  first. Only the trade log is as before the call in every failing case. There is no
  rollback.
\<close>

theorem executeTrade_abort_keeps_earlier_writes:
  "(\<forall>e s'. executeTrade no_faults s now u dto = (Inl e, s') \<longrightarrow>
       s' = s \<and> executeTrade f s now u dto = (Inl e, s)) \<and>
   (\<forall>t s4. executeTrade no_faults s now u dto = (Inr t, s4) \<longrightarrow>
       (\<exists>w. findByUserId s u = Some w \<and>
            wallets s4 = (wallets s)(u \<mapsto> w\<lparr>balance := balance w +
              (if d_type dto = Buy then - t_cost t else t_cost t)\<rparr>)) \<and>
       (wallet_update_fails f \<longrightarrow> executeTrade f s now u dto = (Inl Internal, s)) \<and>
       (\<not> wallet_update_fails f \<and>
        (market_update_fails f \<or> position_write_fails f \<or> trade_insert_fails f) \<longrightarrow>
          executeTrade f s now u dto = (Inl Internal, abortedStore f s s4)))"
proof (cases "findById s (d_marketId dto)")
  case None
  then show ?thesis by (simp add: executeTrade_def)
next
  case (Some mk)
  then have id: "m_id mk = d_marketId dto"
    by (auto simp: findById_def split: option.splits if_splits)
  have mk: "findById s (m_id mk) = Some mk" using Some id by simp
  show ?thesis
  proof (cases "m_status mk \<noteq> Active \<or> now < m_start_time mk \<or> now > m_end_time mk")
    case True
    then show ?thesis using Some by (auto simp: executeTrade_def)
  next
    case False
    show ?thesis
    proof (cases "d_type dto = Buy")
      case True
      then show ?thesis
        using Some False
          executeBuy_abort [OF mk, of u "\<lparr>yesShares = m_yes_shares mk, noShares = m_no_shares mk\<rparr>" dto f]
        by (simp add: executeTrade_def Let_def)
    next
      case sell: False
      then show ?thesis
        using Some False
          executeSell_abort [OF mk, of u "\<lparr>yesShares = m_yes_shares mk, noShares = m_no_shares mk\<rparr>" dto f]
        by (simp add: executeTrade_def Let_def)
    qed
  qed
qed


lemma store1_market: "findById store1 ''m1'' = Some market1"
  by (simp add: findById_def store1_def market1_def)

lemma store1_wallet: "findByUserId store1 ''u1'' = Some wallet1"
  by (simp add: findByUserId_def store1_def wallet1_def)

lemma buy10_on_store1:
  assumes "truthy (d_amount dto) = Some 10" "d_type dto = Buy" "d_marketId dto = ''m1''"
  shows "\<exists>t s4. executeTrade no_faults store1 50 ''u1'' dto = (Inr t, s4) \<and>
           t_cost t = 10 \<and> 4 \<le> t_shares t \<and>
           wallets s4 = [''u1'' \<mapsto> wallet1\<lparr>balance := 90\<rparr>] \<and>
           map tx_amount (wallet_transactions s4) = [- 10] \<and>
           map_option m_volume (markets s4 ''m1'') = Some 10 \<and>
           length (positions s4) = 1 \<and> trades s4 = [t]"
proof -
  define r where "r = calculateSharesForAmount \<lparr>yesShares = 0, noShares = 0\<rparr> (d_side dto) 10 (Some 1000)"
  have pos: "4 \<le> sa_shares r" unfolding r_def by (rule shares_for_10) simp
  then have npos: "\<not> sa_shares r \<le> 0" by simp
  have q: "buyQuote \<lparr>yesShares = 0, noShares = 0\<rparr> dto 1000 = Inr (sa_shares r, 10, sa_avgPrice r)"
    using assms(1) by (simp add: buyQuote_def r_def Let_def)
  have none: "findByUserAndMarket store1 ''u1'' ''m1'' = None"
    by (simp add: findByUserAndMarket_def store1_def)
  have m: "m_id market1 = ''m1''" "m_liquidity market1 = 1000" "m_status market1 = Active"
    "m_start_time market1 = 0" "m_end_time market1 = 100" "m_yes_shares market1 = 0"
    "m_no_shares market1 = 0" "m_volume market1 = 0"
    by (simp_all add: market1_def)
  have w: "balance wallet1 = 100" by (simp add: wallet1_def)
  have st: "wallets store1 = [''u1'' \<mapsto> wallet1]" "wallet_transactions store1 = []"
    "trades store1 = []" "positions store1 = []"
    by (simp_all add: store1_def)
  show ?thesis
    using npos pos
    by (simp add: executeTrade_def store1_market m assms executeBuy_def getLiquidityForMarket_def
        q deductForTrade_def store1_wallet w updateShares_def createOrUpdate_def none
        recordTrade_def recordTransaction_def no_faults_def Let_def st)
qed


lemma buyByAmount10_fields:
  "truthy (d_amount buyByAmount10) = Some 10" "d_type buyByAmount10 = Buy"
  "d_marketId buyByAmount10 = ''m1''"
  by (simp_all add: buyByAmount10_def truthy_def)

lemma buyBoth_fields:
  "truthy (d_amount buyBoth) = Some 10" "d_type buyBoth = Buy" "d_marketId buyBoth = ''m1''"
  by (simp_all add: buyBoth_def truthy_def)

theorem executeTrade_abort_keeps_earlier_writes_witness:
  "fst (executeTrade (no_faults\<lparr>trade_insert_fails := True\<rparr>) store1 50 ''u1'' buyByAmount10)
     = Inl Internal \<and>
   wallets (snd (executeTrade (no_faults\<lparr>trade_insert_fails := True\<rparr>) store1 50 ''u1''
      buyByAmount10)) = [''u1'' \<mapsto> wallet1\<lparr>balance := 90\<rparr>] \<and>
   length (positions (snd (executeTrade (no_faults\<lparr>trade_insert_fails := True\<rparr>) store1 50
      ''u1'' buyByAmount10))) = 1 \<and>
   trades (snd (executeTrade (no_faults\<lparr>trade_insert_fails := True\<rparr>) store1 50 ''u1''
      buyByAmount10)) = []"
proof -
  from buy10_on_store1 [OF buyByAmount10_fields] obtain t s4 where r:
    "executeTrade no_faults store1 50 ''u1'' buyByAmount10 = (Inr t, s4)"
    "wallets s4 = [''u1'' \<mapsto> wallet1\<lparr>balance := 90\<rparr>]"
    "length (positions s4) = 1"
    by auto
  show ?thesis
    using executeTrade_abort_keeps_earlier_writes
      [of store1 50 "''u1''" buyByAmount10 "no_faults\<lparr>trade_insert_fails := True\<rparr>"] r
    by (simp add: abortedStore_def no_faults_def store1_def)
qed

lemma buy10_is_executeBuy:
  "executeTrade g store1 50 ''u1'' buyByAmount10 =
     executeBuy g store1 ''u1'' market1 \<lparr>yesShares = 0, noShares = 0\<rparr> buyByAmount10"
  by (simp add: executeTrade_def store1_market buyByAmount10_def) (simp add: market1_def)

text \<open>
  A buy for the amount 10 on the fresh market by a user holding 100, when the store
  refuses the update of the market's shares: the call fails, and the wallet holds 90 and
  the ledger a row of -10, where before the call the wallet held 100 and the ledger was
  empty.
\<close>

theorem executeBuy_debits_then_aborts:
  "fst (executeTrade (no_faults\<lparr>market_update_fails := True\<rparr>) store1 50 ''u1'' buyByAmount10)
     = Inl Internal \<and>
   map_option balance
     (wallets (snd (executeTrade (no_faults\<lparr>market_update_fails := True\<rparr>) store1 50 ''u1''
        buyByAmount10)) ''u1'') = Some 90 \<and>
   map tx_amount
     (wallet_transactions (snd (executeTrade (no_faults\<lparr>market_update_fails := True\<rparr>) store1
        50 ''u1'' buyByAmount10))) = [- 10] \<and>
   balance wallet1 = 100 \<and> wallet_transactions store1 = []"
proof -
  from buy10_on_store1 [OF buyByAmount10_fields] obtain t s4 where r:
    "executeBuy no_faults store1 ''u1'' market1 \<lparr>yesShares = 0, noShares = 0\<rparr> buyByAmount10
       = (Inr t, s4)"
    "wallets s4 = [''u1'' \<mapsto> wallet1\<lparr>balance := 90\<rparr>]"
    "map tx_amount (wallet_transactions s4) = [- 10]"
    unfolding buy10_is_executeBuy by auto
  have mk: "findById store1 (m_id market1) = Some market1"
    using store1_market by (simp add: market1_def)
  show ?thesis
    unfolding buy10_is_executeBuy
    using executeBuy_abort [OF mk, of "''u1''" "\<lparr>yesShares = 0, noShares = 0\<rparr>" buyByAmount10
        "no_faults\<lparr>market_update_fails := True\<rparr>"] r
    by (simp add: abortedStore_def no_faults_def store1_def wallet1_def)
qed

section \<open>Amount and shares of a request\<close>

lemma executeBuy_ignores_shares:
  assumes "truthy (d_amount dto) \<noteq> None"
  shows "executeBuy f s u mk st dto = executeBuy f s u mk st (dto\<lparr>d_shares := None\<rparr>)"
proof -
  have "buyQuote st dto l = buyQuote st (dto\<lparr>d_shares := None\<rparr>) l" for l
    using assms by (auto simp: buyQuote_def)
  then show ?thesis
    by (simp add: executeBuy_def Let_def
        cong: option.case_cong sum.case_cong prod.case_cong if_cong)
qed

lemma executeSell_ignores_amount:
  "executeSell f s u mk st dto = executeSell f s u mk st (dto\<lparr>d_amount := None\<rparr>)"
  by (simp add: executeSell_def Let_def
      cong: option.case_cong sum.case_cong prod.case_cong if_cong)

lemma execute_neither:
  assumes "truthy (d_amount dto) = None" "truthy (d_shares dto) = None"
  shows "executeBuy f s u mk st dto = (Inl InvalidTrade, s)"
    and "executeSell f s u mk st dto = (Inl InvalidTrade, s)"
  using assms by (simp_all add: executeBuy_def executeSell_def buyQuote_def)

text \<open>
  Claim C4, as amended. A request that supplies neither a (non-zero) amount nor (non-zero)
  shares executes no trade: it fails and leaves the store unchanged, with InvalidTrade
  once the market exists, is active and is inside its trading window. A buy that
  supplies both is not rejected: it is executed as the buy by amount, the shares field
  being ignored. A sell reads only the shares field; an amount supplied with it is
  ignored.
\<close>

theorem executeTrade_amount_or_shares:
  "(truthy (d_amount dto) = None \<and> truthy (d_shares dto) = None \<longrightarrow>
      (\<exists>e. executeTrade f s now u dto = (Inl e, s)) \<and>
      (\<forall>mk. findById s (d_marketId dto) = Some mk \<and> m_status mk = Active \<and>
            m_start_time mk \<le> now \<and> now \<le> m_end_time mk \<longrightarrow>
            executeTrade f s now u dto = (Inl InvalidTrade, s))) \<and>
   (d_type dto = Buy \<and> truthy (d_amount dto) \<noteq> None \<longrightarrow>
      executeTrade f s now u dto = executeTrade f s now u (dto\<lparr>d_shares := None\<rparr>)) \<and>
   (d_type dto = Sell \<longrightarrow>
      executeTrade f s now u dto = executeTrade f s now u (dto\<lparr>d_amount := None\<rparr>))"
proof -
  have a: "executeTrade f s now u dto = executeTrade f s now u (dto\<lparr>d_shares := None\<rparr>)"
    if "d_type dto = Buy" "truthy (d_amount dto) \<noteq> None"
    using that executeBuy_ignores_shares [of dto f s u]
    by (simp add: executeTrade_def Let_def split: option.splits)
  have b: "executeTrade f s now u dto = executeTrade f s now u (dto\<lparr>d_amount := None\<rparr>)"
    if "d_type dto = Sell"
    using that executeSell_ignores_amount [of f s u _ _ dto]
    by (simp add: executeTrade_def Let_def split: option.splits)
  have c: "\<exists>e. executeTrade f s now u dto = (Inl e, s)"
    if "truthy (d_amount dto) = None" "truthy (d_shares dto) = None"
    using execute_neither [OF that, of f s u]
    by (simp add: executeTrade_def Let_def split: option.splits)
  have d: "executeTrade f s now u dto = (Inl InvalidTrade, s)"
    if "truthy (d_amount dto) = None" "truthy (d_shares dto) = None"
      "findById s (d_marketId dto) = Some mk" "m_status mk = Active"
      "m_start_time mk \<le> now" "now \<le> m_end_time mk" for mk
    using execute_neither [OF that(1,2), of f s u mk] that(3-6)
    by (simp add: executeTrade_def Let_def)
  show ?thesis using a b c d by blast
qed

theorem executeTrade_amount_or_shares_witness:
  "executeTrade no_faults store1 50 ''u1''
     \<lparr>d_marketId = ''m1'', d_type = Buy, d_side = Yes, d_amount = None, d_shares = None\<rparr>
     = (Inl InvalidTrade, store1) \<and>
   executeTrade no_faults store1 50 ''u1'' buyBoth =
     executeTrade no_faults store1 50 ''u1'' buyByAmount10 \<and>
   executeTrade no_faults store1 50 ''u1''
     \<lparr>d_marketId = ''m1'', d_type = Sell, d_side = Yes, d_amount = Some 10, d_shares = Some 5\<rparr>
     = executeTrade no_faults store1 50 ''u1''
     \<lparr>d_marketId = ''m1'', d_type = Sell, d_side = Yes, d_amount = None, d_shares = Some 5\<rparr>"
proof -
  have a: "buyBoth\<lparr>d_shares := None\<rparr> = buyByAmount10"
    by (simp add: buyBoth_def buyByAmount10_def)
  have m: "m_status market1 = Active" "m_start_time market1 \<le> 50" "50 \<le> m_end_time market1"
    by (simp_all add: market1_def)
  have n: "executeTrade no_faults store1 50 ''u1''
     \<lparr>d_marketId = ''m1'', d_type = Buy, d_side = Yes, d_amount = None, d_shares = None\<rparr>
     = (Inl InvalidTrade, store1)"
    using executeTrade_amount_or_shares [of
        "\<lparr>d_marketId = ''m1'', d_type = Buy, d_side = Yes, d_amount = None, d_shares = None\<rparr>"
        no_faults store1 50 "''u1''"] store1_market m
    by (simp add: truthy_def)
  have b: "executeTrade no_faults store1 50 ''u1'' buyBoth =
     executeTrade no_faults store1 50 ''u1'' buyByAmount10"
    using executeTrade_amount_or_shares [of buyBoth no_faults store1 50 "''u1''"]
    by (simp add: buyBoth_fields a)
  have c: "executeTrade no_faults store1 50 ''u1''
     \<lparr>d_marketId = ''m1'', d_type = Sell, d_side = Yes, d_amount = Some 10, d_shares = Some 5\<rparr>
     = executeTrade no_faults store1 50 ''u1''
     \<lparr>d_marketId = ''m1'', d_type = Sell, d_side = Yes, d_amount = None, d_shares = Some 5\<rparr>"
    using executeTrade_amount_or_shares [of
        "\<lparr>d_marketId = ''m1'', d_type = Sell, d_side = Yes, d_amount = Some 10, d_shares = Some 5\<rparr>"
        no_faults store1 50 "''u1''"]
    by simp
  show ?thesis using n b c by blast
qed

text \<open>
  A buy on the fresh market that supplies the amount 10 and 5 shares succeeds: the trade
  costs 10, the wallet goes from 100 to 90 and one trade row is recorded.
\<close>

theorem executeBuy_with_both_executes:
  "map_sum id t_cost (fst (executeTrade no_faults store1 50 ''u1'' buyBoth)) = Inr 10 \<and>
   map_option balance (wallets (snd (executeTrade no_faults store1 50 ''u1'' buyBoth)) ''u1'')
     = Some 90 \<and>
   length (trades (snd (executeTrade no_faults store1 50 ''u1'' buyBoth))) = 1"
proof -
  from buy10_on_store1 [OF buyBoth_fields] obtain t s4 where
    "executeTrade no_faults store1 50 ''u1'' buyBoth = (Inr t, s4)" "t_cost t = 10"
    "wallets s4 = [''u1'' \<mapsto> wallet1\<lparr>balance := 90\<rparr>]" "trades s4 = [t]"
    by auto
  then show ?thesis by simp
qed

end
